theory Spec2Isabelle
  imports
    Complex_Main
    "HOL-Library.Word"
    "HOL-Library.Multiset"
    "HOL-Library.List_Lexorder"
    "HOL-Library.Product_Lexorder"
begin

unbundle bit_operations_syntax

section \<open>Python values used by app.py\<close>

text \<open>
  A Python \<open>str\<close> is a sequence of Unicode code points; it is modelled as the list of
  their numbers.  Comparison of two \<open>str\<close> values is the lexicographic order on these
  lists, which is the order of \<open>HOL-Library.List_Lexorder\<close>.  A \<open>bytes\<close> value is a list
  of 8-bit words.
\<close>

type_synonym pystr = "nat list"
type_synonym byte = "8 word"

text \<open>An ASCII literal of the source as a \<open>str\<close>.\<close>

definition lit :: "string \<Rightarrow> pystr" where
  "lit s = map of_char s"

text \<open>The character \<open>/\<close> and the apostrophe.\<close>

definition slash :: nat where
  "slash = 47"

definition apostrophe :: nat where
  "apostrophe = 39"

text \<open>\<open>sub in s\<close> for two \<open>str\<close> values.\<close>

fun startswith :: "pystr \<Rightarrow> pystr \<Rightarrow> bool" where
  "startswith s [] = True"
| "startswith [] (p # ps) = False"
| "startswith (c # cs) (p # ps) = (c = p \<and> startswith cs ps)"

fun contains :: "pystr \<Rightarrow> pystr \<Rightarrow> bool" where
  "contains sub [] = (sub = [])"
| "contains sub (c # cs) = (startswith (c # cs) sub \<or> contains sub cs)"

text \<open>\<open>sep.join(parts)\<close>.\<close>

fun str_join :: "pystr \<Rightarrow> pystr list \<Rightarrow> pystr" where
  "str_join sep [] = []"
| "str_join sep [p] = p"
| "str_join sep (p # q # ps) = p @ sep @ str_join sep (q # ps)"

subsection \<open>Dynamically typed values\<close>

text \<open>
  The values that reach the program from a request: what \<open>request.json\<close>,
  \<open>request.args\<close> and \<open>request.form\<close> deliver.  A finite \<open>float\<close> is the rational
  number it denotes.  A \<open>dict\<close> parsed from JSON has \<open>str\<close> keys and is kept as the list
  of its items.
\<close>

datatype pyfloat = Finite rat | PosInf | NegInf | NaN

datatype pyval =
    PNone
  | PBool bool
  | PInt int
  | PFloat pyfloat
  | PStr pystr
  | PList "pyval list"
  | PDict "(pystr \<times> pyval) list"

text \<open>Truth value testing: \<open>if v\<close>, \<open>not v\<close>, \<open>v or d\<close>.\<close>

fun truthy :: "pyval \<Rightarrow> bool" where
  "truthy PNone = False"
| "truthy (PBool b) = b"
| "truthy (PInt n) = (n \<noteq> 0)"
| "truthy (PFloat (Finite r)) = (r \<noteq> 0)"
| "truthy (PFloat f) = True"
| "truthy (PStr s) = (s \<noteq> [])"
| "truthy (PList vs) = (vs \<noteq> [])"
| "truthy (PDict kvs) = (kvs \<noteq> [])"

text \<open>\<open>type(v).__name__\<close>.\<close>

fun type_name :: "pyval \<Rightarrow> pystr" where
  "type_name PNone = lit ''NoneType''"
| "type_name (PBool b) = lit ''bool''"
| "type_name (PInt n) = lit ''int''"
| "type_name (PFloat f) = lit ''float''"
| "type_name (PStr s) = lit ''str''"
| "type_name (PList vs) = lit ''list''"
| "type_name (PDict kvs) = lit ''dict''"

subsection \<open>Exceptions\<close>

text \<open>
  Every exception met here is an instance of \<open>Exception\<close>.  Its class is recorded as the
  most specific class that some \<open>except\<close> clause of app.py names: the built-in
  \<open>FileNotFoundError\<close>, \<open>PermissionError\<close>, \<open>FileExistsError\<close> and \<open>TimeoutError\<close> are
  subclasses of \<open>OSError\<close> (of which \<open>IOError\<close> is an alias), paramiko's
  \<open>AuthenticationException\<close> is a subclass of its \<open>SSHException\<close>, and \<open>OtherException\<close>
  stands for an instance of none of them.  An exception also carries
  \<open>type(e).__name__\<close> and \<open>str(e)\<close>.
\<close>

datatype exc_class =
    FileNotFoundError
  | PermissionError
  | FileExistsError
  | TimeoutError
  | OSError
  | AuthenticationException
  | SSHException
  | OtherException

datatype exn = Exn (exc_class: exc_class) (exc_type_name: pystr) (exc_str: pystr)

text \<open>\<open>isinstance(e, OSError)\<close>, which is also \<open>isinstance(e, IOError)\<close>.\<close>

fun is_OSError :: "exc_class \<Rightarrow> bool" where
  "is_OSError FileNotFoundError = True"
| "is_OSError PermissionError = True"
| "is_OSError FileExistsError = True"
| "is_OSError TimeoutError = True"
| "is_OSError OSError = True"
| "is_OSError c = False"

text \<open>The \<open>AttributeError\<close> of \<open>v.attr\<close> on a value of a type that has no such attribute.\<close>

definition attribute_error :: "pystr \<Rightarrow> pystr \<Rightarrow> exn" where
  "attribute_error tname attr =
     Exn OtherException (lit ''AttributeError'')
       ([apostrophe] @ tname @ [apostrophe] @ lit '' object has no attribute '' @
        [apostrophe] @ attr @ [apostrophe])"

text \<open>The \<open>TypeError\<close> of \<open>stat.S_ISDIR(None)\<close>.\<close>

definition S_ISDIR_None_error :: exn where
  "S_ISDIR_None_error =
     Exn OtherException (lit ''TypeError'') (lit ''an integer is required'')"

subsection \<open>Library functions taken as given\<close>

text \<open>
  Functions of the Python runtime and of werkzeug that app.py calls and whose tables are
  not part of the repository.  Every theorem holds for whatever they compute.
  \<^item> \<open>str_lower\<close>: \<open>str.lower\<close>;
  \<^item> \<open>str_of\<close>: \<open>str(v)\<close> for a value that is not a \<open>str\<close>;
  \<^item> \<open>int_of_str\<close>: \<open>int(s)\<close> for a \<open>str\<close>, with the \<open>ValueError\<close> it may raise;
  \<^item> \<open>encode_error\<close>: the \<open>UnicodeEncodeError\<close> raised when a \<open>str\<close> with a surrogate
    code point is encoded as UTF-8;
  \<^item> \<open>secure_filename\<close>: \<open>werkzeug.utils.secure_filename\<close>;
  \<^item> \<open>basename\<close>: \<open>os.path.basename\<close>.
\<close>

record runtime =
  str_lower :: "pystr \<Rightarrow> pystr"
  str_of :: "pyval \<Rightarrow> pystr"
  int_of_str :: "pystr \<Rightarrow> exn + int"
  encode_error :: "pystr \<Rightarrow> exn"
  secure_filename :: "pystr \<Rightarrow> pystr"
  basename :: "pystr \<Rightarrow> pystr"

text \<open>\<open>str(v)\<close>, and so \<open>{v}\<close> in an f-string.\<close>

definition py_str :: "runtime \<Rightarrow> pyval \<Rightarrow> pystr" where
  "py_str rt v = (case v of PStr s \<Rightarrow> s | _ \<Rightarrow> str_of rt v)"

text \<open>\<open>int(v)\<close>: a \<open>float\<close> is truncated towards zero.\<close>

definition trunc :: "rat \<Rightarrow> int" where
  "trunc r = (if 0 \<le> r then \<lfloor>r\<rfloor> else \<lceil>r\<rceil>)"

definition int_type_error :: "pyval \<Rightarrow> exn" where
  "int_type_error v =
     Exn OtherException (lit ''TypeError'')
       (lit ''int() argument must be a string, a bytes-like object or a real number, not '' @
        [apostrophe] @ type_name v @ [apostrophe])"

fun py_int :: "runtime \<Rightarrow> pyval \<Rightarrow> exn + int" where
  "py_int rt (PInt n) = Inr n"
| "py_int rt (PBool b) = Inr (if b then 1 else 0)"
| "py_int rt (PFloat (Finite r)) = Inr (trunc r)"
| "py_int rt (PFloat NaN) =
     Inl (Exn OtherException (lit ''ValueError'') (lit ''cannot convert float NaN to integer''))"
| "py_int rt (PFloat f) =
     Inl (Exn OtherException (lit ''OverflowError'')
            (lit ''cannot convert float infinity to integer''))"
| "py_int rt (PStr s) = int_of_str rt s"
| "py_int rt v = Inl (int_type_error v)"

text \<open>\<open>s.rstrip('/')\<close>.\<close>

definition rstrip_slash :: "pystr \<Rightarrow> pystr" where
  "rstrip_slash s = rev (dropWhile (\<lambda>c. c = slash) (rev s))"

text \<open>\<open>d.get(k)\<close> and \<open>d.get(k, default)\<close> on the items of a \<open>dict\<close>.\<close>

definition dict_get :: "(pystr \<times> pyval) list \<Rightarrow> pystr \<Rightarrow> pyval" where
  "dict_get kvs k = (case map_of kvs k of None \<Rightarrow> PNone | Some v \<Rightarrow> v)"

definition dict_get_default :: "(pystr \<times> pyval) list \<Rightarrow> pystr \<Rightarrow> pyval \<Rightarrow> pyval" where
  "dict_get_default kvs k d = (case map_of kvs k of None \<Rightarrow> d | Some v \<Rightarrow> v)"

section \<open>Path utilities: \<open>SFTPClient._join_path\<close>\<close>

text \<open>
  \<open>path.replace('//', '/')\<close>: one left-to-right pass that replaces every non-overlapping
  occurrence of two slashes by one.
\<close>

fun replace_double_slash :: "pystr \<Rightarrow> pystr" where
  "replace_double_slash (a # b # cs) =
     (if a = slash \<and> b = slash then slash # replace_double_slash cs
      else a # replace_double_slash (b # cs))"
| "replace_double_slash cs = cs"

lemma startswith_double_slash:
  "startswith s [slash, slash] = (\<exists>r. s = slash # slash # r)"
  by (cases s rule: replace_double_slash.cases) auto

lemma length_replace_double_slash_le:
  "length (replace_double_slash s) \<le> length s"
  by (induction s rule: replace_double_slash.induct) auto

lemma length_replace_double_slash_less:
  "contains [slash, slash] s \<Longrightarrow> length (replace_double_slash s) < length s"
proof (induction s rule: replace_double_slash.induct)
  case (1 a b cs)
  show ?case
  proof (cases "a = slash \<and> b = slash")
    case True
    then show ?thesis
      using length_replace_double_slash_le [of cs] by simp
  next
    case False
    with 1 show ?thesis by auto
  qed
qed auto

text \<open>
  The loop \<open>while '//' in path: path = path.replace('//', '/')\<close>.  Every pass over a path
  that still holds two adjacent slashes makes it shorter, so the loop ends.
\<close>

function join_path_loop :: "pystr \<Rightarrow> pystr" where
  "join_path_loop path =
     (if contains [slash, slash] path then join_path_loop (replace_double_slash path)
      else path)"
  by pat_completeness auto
termination
  by (relation "measure length") (auto simp: length_replace_double_slash_less)

declare join_path_loop.simps [simp del]

text \<open>\<open>_join_path(self, *parts)\<close>: \<open>'/'.join(str(p) for p in parts)\<close>, then the loop.\<close>

definition join_path :: "runtime \<Rightarrow> pyval list \<Rightarrow> pystr" where
  "join_path rt parts = join_path_loop (str_join [slash] (map (py_str rt) parts))"

subsection \<open>The specification's wording of joinPath\<close>

text \<open>
  Collapsing every run of consecutive slashes into one: a slash that is followed by
  another slash is dropped, every other character is kept.
\<close>

fun collapse_slashes :: "pystr \<Rightarrow> pystr" where
  "collapse_slashes (a # b # cs) =
     (if a = slash \<and> b = slash then collapse_slashes (b # cs)
      else a # collapse_slashes (b # cs))"
| "collapse_slashes cs = cs"

section \<open>The UTF-8 codec of the Python runtime\<close>

text \<open>
  \<open>str.encode('utf-8')\<close>, which paramiko applies to a \<open>str\<close> given to \<open>f.write\<close>, and
  \<open>bytes.decode('utf-8', errors='replace')\<close>.  Both are first written on numbers and then
  carried over to 8-bit words.
\<close>

definition is_surrogate :: "nat \<Rightarrow> bool" where
  "is_surrogate c = (0xD800 \<le> c \<and> c \<le> 0xDFFF)"

text \<open>
  The bytes of one code point; \<open>None\<close> when the strict encoder raises
  \<open>UnicodeEncodeError\<close> (a surrogate).  A \<open>str\<close> holds no code point from \<open>0x110000\<close> on.
\<close>

definition encode_code_point :: "nat \<Rightarrow> nat list option" where
  "encode_code_point c =
     (if c < 0x80 then Some [c]
      else if c < 0x800 then Some [0xC0 + c div 64, 0x80 + c mod 64]
      else if c < 0x10000 then
        (if is_surrogate c then None
         else Some [0xE0 + c div 4096, 0x80 + (c div 64) mod 64, 0x80 + c mod 64])
      else if c < 0x110000 then
        Some [0xF0 + c div 262144, 0x80 + (c div 4096) mod 64, 0x80 + (c div 64) mod 64,
              0x80 + c mod 64]
      else None)"

fun encode_code_points :: "pystr \<Rightarrow> nat list option" where
  "encode_code_points [] = Some []"
| "encode_code_points (c # cs) =
     (case encode_code_point c of
        None \<Rightarrow> None
      | Some bs \<Rightarrow> (case encode_code_points cs of None \<Rightarrow> None | Some r \<Rightarrow> Some (bs @ r)))"

definition utf8_encode :: "pystr \<Rightarrow> byte list option" where
  "utf8_encode s = map_option (map of_nat) (encode_code_points s)"

text \<open>A continuation byte \<open>10xxxxxx\<close>, and the replacement character U+FFFD.\<close>

definition is_continuation :: "nat \<Rightarrow> bool" where
  "is_continuation b = (0x80 \<le> b \<and> b < 0xC0)"

definition replacement_character :: nat where
  "replacement_character = 0xFFFD"

text \<open>
  The decoder with \<open>errors='replace'\<close>, as CPython's: an invalid start byte, or a start
  byte with the valid bytes that follow it up to the first offending byte, or a sequence
  cut off by the end of the data, becomes one U+FFFD, and decoding goes on at the
  offending byte.  The second byte after \<open>0xE0\<close>, \<open>0xED\<close>, \<open>0xF0\<close> and \<open>0xF4\<close> is
  restricted so that overlong forms, surrogates and code points beyond U+10FFFF are
  refused.
\<close>

definition valid_second :: "nat \<Rightarrow> nat \<Rightarrow> bool" where
  "valid_second b b2 =
     (is_continuation b2 \<and>
      \<not> (b = 0xE0 \<and> b2 < 0xA0) \<and> \<not> (b = 0xED \<and> 0xA0 \<le> b2) \<and>
      \<not> (b = 0xF0 \<and> b2 < 0x90) \<and> \<not> (b = 0xF4 \<and> 0x90 \<le> b2))"

text \<open>
  One step: from the first byte \<open>b\<close> and the bytes \<open>bs\<close> after it, the character
  produced and how many bytes of \<open>bs\<close> are consumed with \<open>b\<close>.
\<close>

definition decode_step :: "nat \<Rightarrow> nat list \<Rightarrow> nat \<times> nat" where
  "decode_step b bs =
     (if b < 0x80 then (b, 0)
      else if b < 0xC2 \<or> 0xF5 \<le> b then (replacement_character, 0)
      else if b < 0xE0 then
        (case bs of
           [] \<Rightarrow> (replacement_character, 0)
         | b2 # r \<Rightarrow>
             if is_continuation b2 then ((b - 0xC0) * 64 + (b2 - 0x80), 1)
             else (replacement_character, 0))
      else
        (case bs of
           [] \<Rightarrow> (replacement_character, 0)
         | b2 # r \<Rightarrow>
             if \<not> valid_second b b2 then (replacement_character, 0)
             else
               (case r of
                  [] \<Rightarrow> (replacement_character, 1)
                | b3 # r' \<Rightarrow>
                    if \<not> is_continuation b3 then (replacement_character, 1)
                    else if b < 0xF0 then
                      ((b - 0xE0) * 4096 + (b2 - 0x80) * 64 + (b3 - 0x80), 2)
                    else
                      (case r' of
                         [] \<Rightarrow> (replacement_character, 2)
                       | b4 # r'' \<Rightarrow>
                           if \<not> is_continuation b4 then (replacement_character, 2)
                           else ((b - 0xF0) * 262144 + (b2 - 0x80) * 4096 +
                                 (b3 - 0x80) * 64 + (b4 - 0x80), 3)))))"

function decode_replace :: "nat list \<Rightarrow> pystr" where
  "decode_replace [] = []"
| "decode_replace (b # bs) =
     fst (decode_step b bs) # decode_replace (drop (snd (decode_step b bs)) bs)"
  by pat_completeness auto
termination
  by (relation "measure length") auto

definition utf8_decode_replace :: "byte list \<Rightarrow> pystr" where
  "utf8_decode_replace bs = decode_replace (map unat bs)"

section \<open>The world outside the program\<close>

text \<open>
  Every call that leaves the program (to paramiko, to the local file system, to Flask's
  \<open>send_file\<close>) is recorded, with its arguments, in the order in which it is made.  The
  objects paramiko hands out are named by numbers: the \<open>SSHClient\<close> made by
  \<open>paramiko.SSHClient()\<close> and the channel made by \<open>open_sftp()\<close> are named by the
  number of calls recorded before them.
\<close>

type_synonym handle = nat

datatype call =
    New_SSHClient handle
  | SSH_connect handle pyval int pyval pyval
  | SSH_open_sftp handle handle
  | SFTP_close handle
  | SSH_close handle
  | SFTP_listdir_attr handle pyval
  | SFTP_open handle pyval pystr
  | File_read handle pyval "int option"
  | File_write handle pyval "byte list"
  | File_close handle pyval
  | SFTP_mkdir handle pyval
  | SFTP_stat handle pyval
  | SFTP_rmdir handle pyval
  | SFTP_remove handle pyval
  | SFTP_rename handle pyval pyval
  | SFTP_put handle pystr pyval
  | SFTP_get handle pyval pystr
  | NamedTemporaryFile
  | Upload_save pystr
  | Temp_close pystr
  | Mkstemp
  | Os_close pystr
  | Os_remove pystr
  | Send_file pystr pystr

text \<open>
  \<open>paramiko.SFTPAttributes\<close>: the fields a server did not send are \<open>None\<close>; \<open>st_mode\<close>
  is the 32-bit permissions field of the protocol.
\<close>

record sftp_attrs =
  filename :: pystr
  st_mode :: "32 word option"
  st_size :: "int option"
  st_mtime :: "int option"

text \<open>
  The world answers a call from the calls made so far and the call itself: whether it
  raises, and what it returns when it does not.  It is a parameter of every operation, so
  a theorem that does not restrict it holds for every server and every local system.
  \<^item> \<open>raises\<close>: the exception of the call, if it raises one;
  \<^item> \<open>listed\<close>: the result of \<open>listdir_attr\<close>;
  \<^item> \<open>stat_result\<close>: the result of \<open>sftp.stat\<close>;
  \<^item> \<open>file_data\<close>: the result of \<open>f.read\<close>;
  \<^item> \<open>temp_path\<close>: the name of the temporary file made by \<open>NamedTemporaryFile\<close> or
    \<open>mkstemp\<close>.
\<close>

record env =
  raises :: "call list \<Rightarrow> call \<Rightarrow> exn option"
  listed :: "call list \<Rightarrow> call \<Rightarrow> sftp_attrs list"
  stat_result :: "call list \<Rightarrow> call \<Rightarrow> sftp_attrs"
  file_data :: "call list \<Rightarrow> call \<Rightarrow> byte list"
  temp_path :: "call list \<Rightarrow> call \<Rightarrow> pystr"

definition perform :: "env \<Rightarrow> call \<Rightarrow> call list \<Rightarrow> exn option \<times> call list" where
  "perform env c tr = (raises env tr c, tr @ [c])"

text \<open>
  The bytes of the latest \<open>f.write\<close> to a path through a channel, read off the calls
  made.
\<close>

fun last_write :: "handle \<Rightarrow> pyval \<Rightarrow> call list \<Rightarrow> byte list option" where
  "last_write h path [] = None"
| "last_write h path (c # cs) =
     (case last_write h path cs of
        Some bs \<Rightarrow> Some bs
      | None \<Rightarrow>
          (case c of
             File_write h' path' bs \<Rightarrow> if h' = h \<and> path' = path then Some bs else None
           | _ \<Rightarrow> None))"

text \<open>\<open>stat.S_ISDIR(mode)\<close>: \<open>(mode & 0o170000) == 0o040000\<close>.\<close>

definition S_ISDIR :: "32 word \<Rightarrow> bool" where
  "S_ISDIR m = (m AND 0xF000 = 0x4000)"

section \<open>The class \<open>SFTPClient\<close>\<close>

record SFTPClient =
  host :: pyval
  port :: int
  username :: pyval
  password :: pyval
  client :: "handle option"
  sftp :: "handle option"

text \<open>
  What a method returns: \<open>True\<close>, a \<open>str\<close> (an error message, or the content of a file),
  the list of entries of \<open>listdir\<close> or the \<open>dict\<close> of \<open>stat\<close>.
\<close>

record item =
  item_name :: pystr
  item_path :: pystr
  item_is_dir :: bool
  item_size :: "int option"
  item_mtime :: "int option"

record stat_info =
  info_size :: "int option"
  info_mtime :: "int option"
  info_mode :: "32 word"
  info_is_dir :: bool

datatype retval = RTrue | RStr pystr | RList "item list" | RDict stat_info

text \<open>
  \<open>self.sftp.attr\<close>: the channel, or the \<open>AttributeError\<close> raised on \<open>None\<close> when the
  client never connected.
\<close>

definition sftp_attr :: "SFTPClient \<Rightarrow> pystr \<Rightarrow> exn + handle" where
  "sftp_attr self attr =
     (case sftp self of
        None \<Rightarrow> Inl (attribute_error (lit ''NoneType'') attr)
      | Some h \<Rightarrow> Inr h)"

subsection \<open>\<open>connect\<close>\<close>

definition connect_error :: "exn \<Rightarrow> retval" where
  "connect_error e =
     RStr (case exc_class e of
             AuthenticationException \<Rightarrow> lit ''Error: Authentication failed - '' @ exc_str e
           | SSHException \<Rightarrow> lit ''Error: SSH connection failed - '' @ exc_str e
           | TimeoutError \<Rightarrow> lit ''Error: Connection timeout - '' @ exc_str e
           | _ \<Rightarrow> lit ''Error: '' @ exc_type_name e @ lit '' - '' @ exc_str e)"

text \<open>
  \<open>connect\<close> assigns \<open>self.client\<close> before the connection is tried, so the attribute
  stays set when the attempt fails.  The host key policy and the fixed keyword arguments
  of \<open>client.connect\<close> (the three timeouts of 30 seconds, \<open>look_for_keys=False\<close>,
  \<open>allow_agent=False\<close>) are the same in every call and are not recorded.
\<close>

definition connect :: "env \<Rightarrow> SFTPClient \<Rightarrow> call list \<Rightarrow> retval \<times> SFTPClient \<times> call list" where
  "connect env self tr =
     (let k = length tr;
          self1 = self\<lparr>client := Some k\<rparr>;
          tr1 = tr @ [New_SSHClient k]
      in case perform env
                (SSH_connect k (host self) (port self) (username self) (password self)) tr1 of
           (Some e, tr2) \<Rightarrow> (connect_error e, self1, tr2)
         | (None, tr2) \<Rightarrow>
             (let h = length tr2
              in case perform env (SSH_open_sftp k h) tr2 of
                   (Some e, tr3) \<Rightarrow> (connect_error e, self1, tr3)
                 | (None, tr3) \<Rightarrow> (RTrue, self1\<lparr>sftp := Some h\<rparr>, tr3)))"

subsection \<open>\<open>listdir\<close>\<close>

definition listdir_error :: "runtime \<Rightarrow> pyval \<Rightarrow> exn \<Rightarrow> retval" where
  "listdir_error rt path e =
     RStr (case exc_class e of
             FileNotFoundError \<Rightarrow> lit ''Error: Directory not found: '' @ py_str rt path
           | PermissionError \<Rightarrow> lit ''Error: Permission denied: '' @ py_str rt path
           | _ \<Rightarrow> lit ''Error: '' @ exc_str e)"

text \<open>
  The loop over the attributes.  \<open>S_ISDIR\<close> raises on an entry without \<open>st_mode\<close>, which
  ends the loop with that exception.  An \<open>SFTPAttributes\<close> object always has the
  attributes \<open>st_size\<close> and \<open>st_mtime\<close>, so both \<open>hasattr\<close> tests hold.
\<close>

definition make_item :: "runtime \<Rightarrow> pyval \<Rightarrow> sftp_attrs \<Rightarrow> 32 word \<Rightarrow> item" where
  "make_item rt path attr m =
     \<lparr>item_name = filename attr,
      item_path = join_path rt [path, PStr (filename attr)],
      item_is_dir = S_ISDIR m,
      item_size = st_size attr,
      item_mtime = st_mtime attr\<rparr>"

fun listdir_items :: "runtime \<Rightarrow> pyval \<Rightarrow> sftp_attrs list \<Rightarrow> exn + item list" where
  "listdir_items rt path [] = Inr []"
| "listdir_items rt path (attr # attrs) =
     (case st_mode attr of
        None \<Rightarrow> Inl S_ISDIR_None_error
      | Some m \<Rightarrow>
          (case listdir_items rt path attrs of
             Inl e \<Rightarrow> Inl e
           | Inr items \<Rightarrow> Inr (make_item rt path attr m # items)))"

text \<open>
  The sort key \<open>(not i['is_dir'], i['name'].lower())\<close>.  Tuples compare
  lexicographically, \<open>False\<close> before \<open>True\<close>; \<open>list.sort\<close> is stable, as \<open>sort_key\<close> is.
\<close>

definition item_key :: "runtime \<Rightarrow> item \<Rightarrow> bool \<times> pystr" where
  "item_key rt i = (\<not> item_is_dir i, str_lower rt (item_name i))"

definition listdir :: "runtime \<Rightarrow> env \<Rightarrow> SFTPClient \<Rightarrow> pyval \<Rightarrow> call list \<Rightarrow> retval \<times> call list" where
  "listdir rt env self path tr =
     (case sftp_attr self (lit ''listdir_attr'') of
        Inl e \<Rightarrow> (listdir_error rt path e, tr)
      | Inr h \<Rightarrow>
          (case perform env (SFTP_listdir_attr h path) tr of
             (Some e, tr1) \<Rightarrow> (listdir_error rt path e, tr1)
           | (None, tr1) \<Rightarrow>
               (case listdir_items rt path (listed env tr (SFTP_listdir_attr h path)) of
                  Inl e \<Rightarrow> (listdir_error rt path e, tr1)
                | Inr items \<Rightarrow> (RList (sort_key (item_key rt) items), tr1))))"

subsection \<open>\<open>read_file\<close> and \<open>write_file\<close>\<close>

definition read_error :: "runtime \<Rightarrow> pyval \<Rightarrow> exn \<Rightarrow> retval" where
  "read_error rt path e =
     RStr (case exc_class e of
             FileNotFoundError \<Rightarrow> lit ''Error: File not found: '' @ py_str rt path
           | PermissionError \<Rightarrow> lit ''Error: Permission denied: '' @ py_str rt path
           | _ \<Rightarrow> lit ''Error: '' @ exc_str e)"

text \<open>
  The \<open>with\<close> statement closes the file when its body ends, by \<open>return\<close> or by an
  exception; an exception raised by the closing replaces either.
\<close>

definition read_file ::
  "runtime \<Rightarrow> env \<Rightarrow> SFTPClient \<Rightarrow> pyval \<Rightarrow> int option \<Rightarrow> call list \<Rightarrow> retval \<times> call list" where
  "read_file rt env self path max_bytes tr =
     (case sftp_attr self (lit ''open'') of
        Inl e \<Rightarrow> (read_error rt path e, tr)
      | Inr h \<Rightarrow>
          (case perform env (SFTP_open h path (lit ''rb'')) tr of
             (Some e, tr1) \<Rightarrow> (read_error rt path e, tr1)
           | (None, tr1) \<Rightarrow>
               (case perform env (File_read h path max_bytes) tr1 of
                  (r, tr2) \<Rightarrow>
                    (case perform env (File_close h path) tr2 of
                       (Some e, tr3) \<Rightarrow> (read_error rt path e, tr3)
                     | (None, tr3) \<Rightarrow>
                         (case r of
                            Some e \<Rightarrow> (read_error rt path e, tr3)
                          | None \<Rightarrow>
                              (RStr (utf8_decode_replace
                                       (file_data env tr1 (File_read h path max_bytes))),
                               tr3))))))"

definition write_error :: "runtime \<Rightarrow> pyval \<Rightarrow> exn \<Rightarrow> retval" where
  "write_error rt path e =
     RStr (case exc_class e of
             PermissionError \<Rightarrow> lit ''Error: Permission denied: '' @ py_str rt path
           | _ \<Rightarrow> lit ''Error: '' @ exc_str e)"

text \<open>
  The body of the \<open>with\<close> statement of \<open>write_file\<close>.  A \<open>str\<close> is handed to \<open>f.write\<close>,
  which encodes it as UTF-8.  For any other content \<open>content.decode\<close> is looked up; no
  value that a request delivers has that attribute.
\<close>

definition write_body ::
  "runtime \<Rightarrow> env \<Rightarrow> handle \<Rightarrow> pyval \<Rightarrow> pyval \<Rightarrow> call list \<Rightarrow> exn option \<times> call list" where
  "write_body rt env h path content tr =
     (case content of
        PStr s \<Rightarrow>
          (case utf8_encode s of
             None \<Rightarrow> (Some (encode_error rt s), tr)
           | Some bs \<Rightarrow> perform env (File_write h path bs) tr)
      | _ \<Rightarrow> (Some (attribute_error (type_name content) (lit ''decode'')), tr))"

definition write_file ::
  "runtime \<Rightarrow> env \<Rightarrow> SFTPClient \<Rightarrow> pyval \<Rightarrow> pyval \<Rightarrow> call list \<Rightarrow> retval \<times> call list" where
  "write_file rt env self path content tr =
     (case sftp_attr self (lit ''open'') of
        Inl e \<Rightarrow> (write_error rt path e, tr)
      | Inr h \<Rightarrow>
          (case perform env (SFTP_open h path (lit ''w'')) tr of
             (Some e, tr1) \<Rightarrow> (write_error rt path e, tr1)
           | (None, tr1) \<Rightarrow>
               (case write_body rt env h path content tr1 of
                  (r, tr2) \<Rightarrow>
                    (case perform env (File_close h path) tr2 of
                       (Some e, tr3) \<Rightarrow> (write_error rt path e, tr3)
                     | (None, tr3) \<Rightarrow>
                         (case r of
                            Some e \<Rightarrow> (write_error rt path e, tr3)
                          | None \<Rightarrow> (RTrue, tr3))))))"

subsection \<open>\<open>mkdir\<close>, \<open>remove\<close>, \<open>rename\<close>\<close>

definition mkdir_error :: "runtime \<Rightarrow> pyval \<Rightarrow> exn \<Rightarrow> retval" where
  "mkdir_error rt path e =
     RStr (case exc_class e of
             FileExistsError \<Rightarrow> lit ''Error: Directory already exists: '' @ py_str rt path
           | PermissionError \<Rightarrow> lit ''Error: Permission denied: '' @ py_str rt path
           | _ \<Rightarrow> lit ''Error: '' @ exc_str e)"

definition mkdir :: "runtime \<Rightarrow> env \<Rightarrow> SFTPClient \<Rightarrow> pyval \<Rightarrow> call list \<Rightarrow> retval \<times> call list" where
  "mkdir rt env self path tr =
     (case sftp_attr self (lit ''mkdir'') of
        Inl e \<Rightarrow> (mkdir_error rt path e, tr)
      | Inr h \<Rightarrow>
          (case perform env (SFTP_mkdir h path) tr of
             (Some e, tr1) \<Rightarrow> (mkdir_error rt path e, tr1)
           | (None, tr1) \<Rightarrow> (RTrue, tr1)))"

text \<open>
  The three outer \<open>except\<close> clauses of \<open>remove\<close>: \<open>PermissionError\<close> first, then any other
  \<open>OSError\<close>, whose text is searched for \<open>not empty\<close> after lowering it, then
  \<open>Exception\<close>.
\<close>

definition remove_error :: "runtime \<Rightarrow> pyval \<Rightarrow> exn \<Rightarrow> retval" where
  "remove_error rt path e =
     RStr (if exc_class e = PermissionError then
             lit ''Error: Permission denied: '' @ py_str rt path
           else if is_OSError (exc_class e) then
             (if contains (lit ''not empty'') (str_lower rt (exc_str e)) then
                lit ''Error: Directory not empty: '' @ py_str rt path
              else lit ''Error: '' @ exc_str e)
           else lit ''Error: '' @ exc_str e)"

text \<open>
  \<open>remove\<close>: the inner \<open>try\<close> turns every \<open>IOError\<close> of \<open>stat\<close> into the message
  \<open>Path not found\<close>; any other exception of \<open>stat\<close> reaches the outer clauses.
\<close>

definition remove :: "runtime \<Rightarrow> env \<Rightarrow> SFTPClient \<Rightarrow> pyval \<Rightarrow> call list \<Rightarrow> retval \<times> call list" where
  "remove rt env self path tr =
     (case sftp_attr self (lit ''stat'') of
        Inl e \<Rightarrow> (remove_error rt path e, tr)
      | Inr h \<Rightarrow>
          (case perform env (SFTP_stat h path) tr of
             (Some e, tr1) \<Rightarrow>
               (if is_OSError (exc_class e) then
                  (RStr (lit ''Error: Path not found: '' @ py_str rt path), tr1)
                else (remove_error rt path e, tr1))
           | (None, tr1) \<Rightarrow>
               (case st_mode (stat_result env tr (SFTP_stat h path)) of
                  None \<Rightarrow> (remove_error rt path S_ISDIR_None_error, tr1)
                | Some m \<Rightarrow>
                    (case perform env
                            (if S_ISDIR m then SFTP_rmdir h path else SFTP_remove h path) tr1 of
                       (Some e, tr2) \<Rightarrow> (remove_error rt path e, tr2)
                     | (None, tr2) \<Rightarrow> (RTrue, tr2)))))"

definition rename_error :: "runtime \<Rightarrow> pyval \<Rightarrow> exn \<Rightarrow> retval" where
  "rename_error rt old e =
     RStr (case exc_class e of
             FileNotFoundError \<Rightarrow> lit ''Error: File not found: '' @ py_str rt old
           | PermissionError \<Rightarrow> lit ''Error: Permission denied''
           | _ \<Rightarrow> lit ''Error: '' @ exc_str e)"

definition rename ::
  "runtime \<Rightarrow> env \<Rightarrow> SFTPClient \<Rightarrow> pyval \<Rightarrow> pyval \<Rightarrow> call list \<Rightarrow> retval \<times> call list" where
  "rename rt env self old new tr =
     (case sftp_attr self (lit ''rename'') of
        Inl e \<Rightarrow> (rename_error rt old e, tr)
      | Inr h \<Rightarrow>
          (case perform env (SFTP_rename h old new) tr of
             (Some e, tr1) \<Rightarrow> (rename_error rt old e, tr1)
           | (None, tr1) \<Rightarrow> (RTrue, tr1)))"

subsection \<open>\<open>upload_local\<close>, \<open>download_to_local\<close>, \<open>stat\<close>, \<open>close\<close>\<close>

definition upload_error :: "runtime \<Rightarrow> pyval \<Rightarrow> exn \<Rightarrow> retval" where
  "upload_error rt remote_path e =
     RStr (case exc_class e of
             PermissionError \<Rightarrow> lit ''Error: Permission denied: '' @ py_str rt remote_path
           | _ \<Rightarrow> lit ''Error: '' @ exc_str e)"

definition upload_local ::
  "runtime \<Rightarrow> env \<Rightarrow> SFTPClient \<Rightarrow> pystr \<Rightarrow> pyval \<Rightarrow> call list \<Rightarrow> retval \<times> call list" where
  "upload_local rt env self local_path remote_path tr =
     (case sftp_attr self (lit ''put'') of
        Inl e \<Rightarrow> (upload_error rt remote_path e, tr)
      | Inr h \<Rightarrow>
          (case perform env (SFTP_put h local_path remote_path) tr of
             (Some e, tr1) \<Rightarrow> (upload_error rt remote_path e, tr1)
           | (None, tr1) \<Rightarrow> (RTrue, tr1)))"

definition download_error :: "runtime \<Rightarrow> pyval \<Rightarrow> exn \<Rightarrow> retval" where
  "download_error rt remote_path e =
     RStr (case exc_class e of
             FileNotFoundError \<Rightarrow> lit ''Error: File not found: '' @ py_str rt remote_path
           | PermissionError \<Rightarrow> lit ''Error: Permission denied: '' @ py_str rt remote_path
           | _ \<Rightarrow> lit ''Error: '' @ exc_str e)"

text \<open>The message \<open>f"Error: '{remote_path}' is a directory"\<close>.\<close>

definition is_a_directory :: "runtime \<Rightarrow> pyval \<Rightarrow> pystr" where
  "is_a_directory rt remote_path =
     lit ''Error: '' @ [apostrophe] @ py_str rt remote_path @ [apostrophe] @
     lit '' is a directory''"

definition download_to_local ::
  "runtime \<Rightarrow> env \<Rightarrow> SFTPClient \<Rightarrow> pyval \<Rightarrow> pystr \<Rightarrow> call list \<Rightarrow> retval \<times> call list" where
  "download_to_local rt env self remote_path local_path tr =
     (case sftp_attr self (lit ''stat'') of
        Inl e \<Rightarrow> (download_error rt remote_path e, tr)
      | Inr h \<Rightarrow>
          (case perform env (SFTP_stat h remote_path) tr of
             (Some e, tr1) \<Rightarrow> (download_error rt remote_path e, tr1)
           | (None, tr1) \<Rightarrow>
               (case st_mode (stat_result env tr (SFTP_stat h remote_path)) of
                  None \<Rightarrow> (download_error rt remote_path S_ISDIR_None_error, tr1)
                | Some m \<Rightarrow>
                    if S_ISDIR m then (RStr (is_a_directory rt remote_path), tr1)
                    else
                      (case perform env (SFTP_get h remote_path local_path) tr1 of
                         (Some e, tr2) \<Rightarrow> (download_error rt remote_path e, tr2)
                       | (None, tr2) \<Rightarrow> (RTrue, tr2)))))"

definition stat_error :: "runtime \<Rightarrow> pyval \<Rightarrow> exn \<Rightarrow> retval" where
  "stat_error rt path e =
     RStr (case exc_class e of
             FileNotFoundError \<Rightarrow> lit ''Error: Path not found: '' @ py_str rt path
           | _ \<Rightarrow> lit ''Error: '' @ exc_str e)"

definition stat :: "runtime \<Rightarrow> env \<Rightarrow> SFTPClient \<Rightarrow> pyval \<Rightarrow> call list \<Rightarrow> retval \<times> call list" where
  "stat rt env self path tr =
     (case sftp_attr self (lit ''stat'') of
        Inl e \<Rightarrow> (stat_error rt path e, tr)
      | Inr h \<Rightarrow>
          (case perform env (SFTP_stat h path) tr of
             (Some e, tr1) \<Rightarrow> (stat_error rt path e, tr1)
           | (None, tr1) \<Rightarrow>
               (let st = stat_result env tr (SFTP_stat h path)
                in case st_mode st of
                     None \<Rightarrow> (stat_error rt path S_ISDIR_None_error, tr1)
                   | Some m \<Rightarrow>
                       (RDict \<lparr>info_size = st_size st, info_mtime = st_mtime st,
                               info_mode = m, info_is_dir = S_ISDIR m\<rparr>, tr1))))"

text \<open>
  \<open>close\<close> returns nothing and raises nothing: an exception of \<open>self.sftp.close()\<close> is
  passed over, and with it the closing of \<open>self.client\<close>.
\<close>

definition close :: "env \<Rightarrow> SFTPClient \<Rightarrow> call list \<Rightarrow> call list" where
  "close env self tr =
     (case (case sftp self of None \<Rightarrow> (None, tr) | Some h \<Rightarrow> perform env (SFTP_close h) tr) of
        (Some e, tr1) \<Rightarrow> tr1
      | (None, tr1) \<Rightarrow>
          (case client self of
             None \<Rightarrow> tr1
           | Some k \<Rightarrow> snd (perform env (SSH_close k) tr1)))"

section \<open>The routes\<close>

text \<open>
  The state of the process: the global \<open>sftp_client\<close> and the calls made so far.  A route
  answers with \<open>jsonify(...)\<close> and a status, with a file sent as an attachment, or not at
  all when an exception leaves the route function.
\<close>

record app =
  sftp_client :: "SFTPClient option"
  calls :: "call list"

datatype body =
    Success
  | Success_message pystr
  | Success_items "item list"
  | Success_content pystr
  | Success_info stat_info
  | Failure retval

datatype response = Json nat body | Attachment pystr pystr | Unhandled exn

definition not_connected :: response where
  "not_connected = Json 400 (Failure (RStr (lit ''Not connected'')))"

definition missing_path :: response where
  "missing_path = Json 400 (Failure (RStr (lit ''Missing path'')))"

text \<open>\<open>jsonify(success=True)\<close> when \<open>res is True\<close>, else the failure with status 500.\<close>

definition acknowledge :: "retval \<Rightarrow> response" where
  "acknowledge res = (if res = RTrue then Json 200 Success else Json 500 (Failure res))"

text \<open>
  \<open>request.args.get(k)\<close> is a \<open>str\<close> or \<open>None\<close>.  \<open>data = request.json or {}\<close> followed by
  \<open>data.get\<close>: \<open>request.json\<close> may raise, and a JSON value that is true and not an
  object has no \<open>get\<close>.
\<close>

definition arg_value :: "pystr option \<Rightarrow> pyval" where
  "arg_value a = (case a of None \<Rightarrow> PNone | Some v \<Rightarrow> PStr v)"

definition request_data :: "exn + pyval \<Rightarrow> exn + (pystr \<times> pyval) list" where
  "request_data request_json =
     (case request_json of
        Inl e \<Rightarrow> Inl e
      | Inr j \<Rightarrow>
          if \<not> truthy j then Inr []
          else (case j of
                  PDict kvs \<Rightarrow> Inr kvs
                | _ \<Rightarrow> Inl (attribute_error (type_name j) (lit ''get''))))"

subsection \<open>\<open>connect_route\<close> and \<open>disconnect_route\<close>\<close>

definition credentials_required :: response where
  "credentials_required =
     Json 400 (Failure (RStr (lit ''host, username and password required'')))"

text \<open>
  \<open>SFTPClient(host, port, username, password)\<close> evaluates \<open>int(port)\<close>, which may raise
  after the previous client has been closed and before the global is assigned.
\<close>

text \<open>The block \<open>if sftp_client: ... sftp_client.close()\<close>: the calls made after it.\<close>

definition close_existing :: "env \<Rightarrow> app \<Rightarrow> call list" where
  "close_existing env s =
     (case sftp_client s of
        None \<Rightarrow> calls s
      | Some existing \<Rightarrow> close env existing (calls s))"

definition connect_route :: "runtime \<Rightarrow> env \<Rightarrow> exn + pyval \<Rightarrow> app \<Rightarrow> response \<times> app" where
  "connect_route rt env request_json s =
     (case request_data request_json of
        Inl e \<Rightarrow> (Unhandled e, s)
      | Inr data \<Rightarrow>
          (let host' = dict_get data (lit ''host'');
               port' = dict_get_default data (lit ''port'') (PInt 22);
               username' = dict_get data (lit ''username'');
               password' = dict_get data (lit ''password'')
           in if \<not> truthy host' \<or> \<not> truthy username' \<or> password' = PNone then
                (credentials_required, s)
              else
                (let tr1 = close_existing env s
                 in case py_int rt port' of
                      Inl e \<Rightarrow> (Unhandled e, s\<lparr>calls := tr1\<rparr>)
                    | Inr p \<Rightarrow>
                        (case connect env
                                \<lparr>host = host', port = p, username = username',
                                 password = password', client = None, sftp = None\<rparr> tr1 of
                           (res, self', tr2) \<Rightarrow>
                             if res = RTrue then
                               (Json 200 (Success_message (lit ''Connected successfully'')),
                                \<lparr>sftp_client = Some self', calls = tr2\<rparr>)
                             else
                               (Json 500 (Failure res),
                                \<lparr>sftp_client = None, calls = tr2\<rparr>)))))"

definition disconnect_route :: "env \<Rightarrow> app \<Rightarrow> response \<times> app" where
  "disconnect_route env s =
     (case sftp_client s of
        None \<Rightarrow> (Json 200 Success, s)
      | Some c \<Rightarrow> (Json 200 Success, \<lparr>sftp_client = None, calls = close env c (calls s)\<rparr>))"

subsection \<open>The routes of the file operations\<close>

definition api_list :: "runtime \<Rightarrow> env \<Rightarrow> pystr option \<Rightarrow> app \<Rightarrow> response \<times> app" where
  "api_list rt env path_arg s =
     (case sftp_client s of
        None \<Rightarrow> (not_connected, s)
      | Some c \<Rightarrow>
          (let path = (case path_arg of None \<Rightarrow> PStr [slash] | Some p \<Rightarrow> PStr p)
           in case listdir rt env c path (calls s) of
                (result, tr) \<Rightarrow>
                  ((case result of
                      RList items \<Rightarrow> Json 200 (Success_items items)
                    | _ \<Rightarrow> Json 500 (Failure result)),
                   s\<lparr>calls := tr\<rparr>)))"

text \<open>\<open>int(max_bytes) if max_bytes else None\<close>, for the \<open>max\<close> argument of the request.\<close>

definition max_bytes_of :: "runtime \<Rightarrow> pystr option \<Rightarrow> exn + int option" where
  "max_bytes_of rt max_arg =
     (case max_arg of
        None \<Rightarrow> Inr None
      | Some m \<Rightarrow>
          if m = [] then Inr None
          else (case int_of_str rt m of Inl e \<Rightarrow> Inl e | Inr n \<Rightarrow> Inr (Some n)))"

definition api_read ::
  "runtime \<Rightarrow> env \<Rightarrow> pystr option \<Rightarrow> pystr option \<Rightarrow> app \<Rightarrow> response \<times> app" where
  "api_read rt env path_arg max_arg s =
     (case sftp_client s of
        None \<Rightarrow> (not_connected, s)
      | Some c \<Rightarrow>
          (let path = arg_value path_arg
           in if \<not> truthy path then (missing_path, s)
              else
                (case max_bytes_of rt max_arg of
                   Inl e \<Rightarrow> (Unhandled e, s)
                 | Inr max_bytes \<Rightarrow>
                     (case read_file rt env c path max_bytes (calls s) of
                        (result, tr) \<Rightarrow>
                          ((case result of
                              RStr r \<Rightarrow>
                                if \<not> startswith r (lit ''Error:'') then
                                  Json 200 (Success_content r)
                                else Json 500 (Failure result)
                            | _ \<Rightarrow> Json 500 (Failure result)),
                           s\<lparr>calls := tr\<rparr>)))))"

definition api_write :: "runtime \<Rightarrow> env \<Rightarrow> exn + pyval \<Rightarrow> app \<Rightarrow> response \<times> app" where
  "api_write rt env request_json s =
     (case sftp_client s of
        None \<Rightarrow> (not_connected, s)
      | Some c \<Rightarrow>
          (case request_data request_json of
             Inl e \<Rightarrow> (Unhandled e, s)
           | Inr data \<Rightarrow>
               (let path = dict_get data (lit ''path'');
                    content = dict_get_default data (lit ''content'') (PStr [])
                in if \<not> truthy path then (missing_path, s)
                   else
                     (case write_file rt env c path content (calls s) of
                        (result, tr) \<Rightarrow> (acknowledge result, s\<lparr>calls := tr\<rparr>)))))"

definition api_mkdir :: "runtime \<Rightarrow> env \<Rightarrow> exn + pyval \<Rightarrow> app \<Rightarrow> response \<times> app" where
  "api_mkdir rt env request_json s =
     (case sftp_client s of
        None \<Rightarrow> (not_connected, s)
      | Some c \<Rightarrow>
          (case request_data request_json of
             Inl e \<Rightarrow> (Unhandled e, s)
           | Inr data \<Rightarrow>
               (let path = dict_get data (lit ''path'')
                in if \<not> truthy path then (missing_path, s)
                   else
                     (case mkdir rt env c path (calls s) of
                        (res, tr) \<Rightarrow> (acknowledge res, s\<lparr>calls := tr\<rparr>)))))"

definition api_remove :: "runtime \<Rightarrow> env \<Rightarrow> exn + pyval \<Rightarrow> app \<Rightarrow> response \<times> app" where
  "api_remove rt env request_json s =
     (case sftp_client s of
        None \<Rightarrow> (not_connected, s)
      | Some c \<Rightarrow>
          (case request_data request_json of
             Inl e \<Rightarrow> (Unhandled e, s)
           | Inr data \<Rightarrow>
               (let path = dict_get data (lit ''path'')
                in if \<not> truthy path then (missing_path, s)
                   else
                     (case remove rt env c path (calls s) of
                        (res, tr) \<Rightarrow> (acknowledge res, s\<lparr>calls := tr\<rparr>)))))"

definition api_rename :: "runtime \<Rightarrow> env \<Rightarrow> exn + pyval \<Rightarrow> app \<Rightarrow> response \<times> app" where
  "api_rename rt env request_json s =
     (case sftp_client s of
        None \<Rightarrow> (not_connected, s)
      | Some c \<Rightarrow>
          (case request_data request_json of
             Inl e \<Rightarrow> (Unhandled e, s)
           | Inr data \<Rightarrow>
               (let old = dict_get data (lit ''old'');
                    new = dict_get data (lit ''new'')
                in if \<not> truthy old \<or> \<not> truthy new then
                     (Json 400 (Failure (RStr (lit ''Missing old or new path''))), s)
                   else
                     (case rename rt env c old new (calls s) of
                        (res, tr) \<Rightarrow> (acknowledge res, s\<lparr>calls := tr\<rparr>)))))"

text \<open>
  \<open>api_upload\<close>.  The request carries the file name of \<open>request.files['file']\<close>, if there
  is such a file, and the form field \<open>remote_dir\<close>.  The \<open>try\<close> block is
  \<open>upload_attempt\<close>; the \<open>finally\<close> clause removes the temporary file whatever the
  block did, and passes over an exception of the removal.
\<close>

definition upload_attempt ::
  "runtime \<Rightarrow> env \<Rightarrow> SFTPClient \<Rightarrow> pystr \<Rightarrow> pystr \<Rightarrow> call list \<Rightarrow> response \<times> call list" where
  "upload_attempt rt env c tmp remote_path tr =
     (case perform env (Upload_save tmp) tr of
        (Some e, tr1) \<Rightarrow> (Unhandled e, tr1)
      | (None, tr1) \<Rightarrow>
          (case perform env (Temp_close tmp) tr1 of
             (Some e, tr2) \<Rightarrow> (Unhandled e, tr2)
           | (None, tr2) \<Rightarrow>
               (case upload_local rt env c tmp (PStr remote_path) tr2 of
                  (res, tr3) \<Rightarrow> (acknowledge res, tr3))))"

definition api_upload ::
  "runtime \<Rightarrow> env \<Rightarrow> pystr option \<Rightarrow> pystr option \<Rightarrow> app \<Rightarrow> response \<times> app" where
  "api_upload rt env file_arg remote_dir_arg s =
     (case sftp_client s of
        None \<Rightarrow> (not_connected, s)
      | Some c \<Rightarrow>
          (case file_arg of
             None \<Rightarrow> (Json 400 (Failure (RStr (lit ''No file provided''))), s)
           | Some f_filename \<Rightarrow>
               if f_filename = [] then
                 (Json 400 (Failure (RStr (lit ''No file selected''))), s)
               else
                 (let remote_dir = (case remote_dir_arg of None \<Rightarrow> [slash] | Some d \<Rightarrow> d);
                      remote_path =
                        rstrip_slash remote_dir @ [slash] @ secure_filename rt f_filename
                  in case perform env NamedTemporaryFile (calls s) of
                       (Some e, tr1) \<Rightarrow> (Unhandled e, s\<lparr>calls := tr1\<rparr>)
                     | (None, tr1) \<Rightarrow>
                         (let tmp = temp_path env (calls s) NamedTemporaryFile
                          in case upload_attempt rt env c tmp remote_path tr1 of
                               (resp, tr2) \<Rightarrow>
                                 (resp, s\<lparr>calls := snd (perform env (Os_remove tmp) tr2)\<rparr>)))))"

text \<open>
  \<open>api_download\<close>: the temporary file is made by \<open>mkstemp\<close> and its descriptor closed
  before the download; it is removed after \<open>send_file\<close>, or after a failed download, and
  an exception of the removal is passed over.
\<close>

definition api_download :: "runtime \<Rightarrow> env \<Rightarrow> pystr option \<Rightarrow> app \<Rightarrow> response \<times> app" where
  "api_download rt env path_arg s =
     (case sftp_client s of
        None \<Rightarrow> (not_connected, s)
      | Some c \<Rightarrow>
          (let path = arg_value path_arg
           in if \<not> truthy path then (missing_path, s)
              else
                (case perform env Mkstemp (calls s) of
                   (Some e, tr1) \<Rightarrow> (Unhandled e, s\<lparr>calls := tr1\<rparr>)
                 | (None, tr1) \<Rightarrow>
                     (let tmp_path = temp_path env (calls s) Mkstemp
                      in case perform env (Os_close tmp_path) tr1 of
                           (Some e, tr2) \<Rightarrow> (Unhandled e, s\<lparr>calls := tr2\<rparr>)
                         | (None, tr2) \<Rightarrow>
                             (case download_to_local rt env c path tmp_path tr2 of
                                (res, tr3) \<Rightarrow>
                                  if res = RTrue then
                                    (let download_name = basename rt (py_str rt path)
                                     in case perform env (Send_file tmp_path download_name) tr3 of
                                          (r, tr4) \<Rightarrow>
                                            ((case r of
                                                Some e \<Rightarrow> Unhandled e
                                              | None \<Rightarrow> Attachment tmp_path download_name),
                                             s\<lparr>calls :=
                                                 snd (perform env (Os_remove tmp_path) tr4)\<rparr>))
                                  else
                                    (Json 500 (Failure res),
                                     s\<lparr>calls :=
                                         snd (perform env (Os_remove tmp_path) tr3)\<rparr>))))))"

definition api_stat :: "runtime \<Rightarrow> env \<Rightarrow> pystr option \<Rightarrow> app \<Rightarrow> response \<times> app" where
  "api_stat rt env path_arg s =
     (case sftp_client s of
        None \<Rightarrow> (not_connected, s)
      | Some c \<Rightarrow>
          (let path = arg_value path_arg
           in if \<not> truthy path then (missing_path, s)
              else
                (case stat rt env c path (calls s) of
                   (res, tr) \<Rightarrow>
                     ((case res of
                         RDict info \<Rightarrow> Json 200 (Success_info info)
                       | _ \<Rightarrow> Json 500 (Failure res)),
                      s\<lparr>calls := tr\<rparr>))))"

section \<open>Instances used in the examples\<close>

text \<open>
  A runtime that agrees with Python on the ASCII strings of the examples: \<open>lower\<close> maps
  \<open>A\<close> to \<open>Z\<close> to \<open>a\<close> to \<open>z\<close>, \<open>int\<close> reads a string of decimal digits.
\<close>

definition ascii_lower :: "pystr \<Rightarrow> pystr" where
  "ascii_lower s = map (\<lambda>c. if 65 \<le> c \<and> c \<le> 90 then c + 32 else c) s"

definition decimal :: "pystr \<Rightarrow> exn + int" where
  "decimal s =
     (if s \<noteq> [] \<and> list_all (\<lambda>c. 48 \<le> c \<and> c \<le> 57) s then
        Inr (foldl (\<lambda>n c. 10 * n + int (c - 48)) 0 s)
      else Inl (Exn OtherException (lit ''ValueError'')
                  (lit ''invalid literal for int() with base 10: '' @
                   [apostrophe] @ s @ [apostrophe])))"

definition example_runtime :: runtime where
  "example_runtime =
     \<lparr>str_lower = ascii_lower,
      str_of = type_name,
      int_of_str = decimal,
      encode_error = (\<lambda>s. Exn OtherException (lit ''UnicodeEncodeError'')
                              (lit ''surrogates not allowed'')),
      secure_filename = (\<lambda>s. s),
      basename = (\<lambda>s. s)\<rparr>"

text \<open>A world in which no call raises; the temporary file is \<open>/tmp/tmp0\<close>.\<close>

definition no_attrs :: sftp_attrs where
  "no_attrs = \<lparr>filename = [], st_mode = None, st_size = None, st_mtime = None\<rparr>"

definition quiet :: env where
  "quiet =
     \<lparr>raises = (\<lambda>tr c. None),
      listed = (\<lambda>tr c. []),
      stat_result = (\<lambda>tr c. no_attrs),
      file_data = (\<lambda>tr c. []),
      temp_path = (\<lambda>tr c. lit ''/tmp/tmp0'')\<rparr>"

text \<open>
  A world that lists the given entries and is quiet otherwise; the attributes of a
  directory (mode \<open>0o40755\<close>) and of a regular file (mode \<open>0o100644\<close>).
\<close>

definition dir_attrs :: "pystr \<Rightarrow> sftp_attrs" where
  "dir_attrs n =
     \<lparr>filename = n, st_mode = Some 0x41ED, st_size = Some 4096, st_mtime = Some 0\<rparr>"

definition file_attrs :: "pystr \<Rightarrow> sftp_attrs" where
  "file_attrs n =
     \<lparr>filename = n, st_mode = Some 0x81A4, st_size = Some 5, st_mtime = Some 0\<rparr>"

definition listing :: "sftp_attrs list \<Rightarrow> env" where
  "listing attrs = quiet\<lparr>listed := (\<lambda>tr c. attrs)\<rparr>"

text \<open>No session, no call made yet; and a connected client.\<close>

definition idle :: app where
  "idle = \<lparr>sftp_client = None, calls = []\<rparr>"

definition connected_client :: SFTPClient where
  "connected_client =
     \<lparr>host = PStr (lit ''h''), port = 22, username = PStr (lit ''u''),
      password = PStr (lit ''p''), client = Some 0, sftp = Some 2\<rparr>"

definition in_session :: app where
  "in_session = \<lparr>sftp_client = Some connected_client, calls = []\<rparr>"

text \<open>A world in which every file read returns the given bytes.\<close>

definition serving :: "byte list \<Rightarrow> env" where
  "serving bs = quiet\<lparr>file_data := (\<lambda>tr c. bs)\<rparr>"

text \<open>
  A world in which every path is a directory; one in which, besides, \<open>rmdir\<close> raises an
  \<open>IOError\<close> with the given text, as paramiko does when the server answers with the
  status \<open>SSH_FX_FAILURE\<close> (the text is the server's: \<open>Failure\<close> for OpenSSH's
  \<open>sftp-server\<close>, also for a directory that is not empty); and one in which \<open>stat\<close>
  raises \<open>FileNotFoundError\<close>.
\<close>

definition all_directories :: env where
  "all_directories = quiet\<lparr>stat_result := (\<lambda>tr c. dir_attrs [])\<rparr>"



text \<open>
  A world in which the server rejects the password, and the JSON body of a connect
  request for host \<open>h\<close> and user \<open>u\<close> with the given password.
\<close>

definition rejecting_login :: env where
  "rejecting_login =
     quiet\<lparr>raises := (\<lambda>tr c. case c of
                                SSH_connect k h p u pw \<Rightarrow>
                                  Some (Exn AuthenticationException
                                          (lit ''AuthenticationException'')
                                          (lit ''Authentication failed.''))
                              | _ \<Rightarrow> None)\<rparr>"

definition credentials :: "pystr \<Rightarrow> pyval" where
  "credentials pw =
     PDict [(lit ''host'', PStr (lit ''h'')), (lit ''username'', PStr (lit ''u'')),
            (lit ''password'', PStr pw)]"

text \<open>
  A world that keeps what is written: a read returns the bytes of the latest write to the
  same path.
\<close>

definition remembering :: env where
  "remembering =
     quiet\<lparr>file_data := (\<lambda>tr c. case c of
                                   File_read h path n \<Rightarrow>
                                     (case last_write h path tr of None \<Rightarrow> [] | Some bs \<Rightarrow> bs)
                                 | _ \<Rightarrow> [])\<rparr>"

text \<open>
  A world in which a listing through a channel that has been closed raises, as paramiko
  does on a closed channel; and the JSON body of a connect request whose port is the
  string \<open>abc\<close>.
\<close>

definition hanging_up :: env where
  "hanging_up =
     quiet\<lparr>raises := (\<lambda>tr c. case c of
                                SFTP_listdir_attr h p \<Rightarrow>
                                  if SFTP_close h \<in> set tr then
                                    Some (Exn OSError (lit ''OSError'') (lit ''Socket is closed''))
                                  else None
                              | _ \<Rightarrow> None)\<rparr>"

definition bad_port_request :: pyval where
  "bad_port_request =
     PDict [(lit ''host'', PStr (lit ''h'')), (lit ''username'', PStr (lit ''u'')),
            (lit ''password'', PStr (lit ''p'')), (lit ''port'', PStr (lit ''abc''))]"

section \<open>Basic facts\<close>

lemma py_str_PStr [simp]: "py_str rt (PStr s) = s"
  by (simp add: py_str_def)

section \<open>Path utilities: joinPath\<close>

lemma collapse_slashes_Cons:
  "collapse_slashes (x # s) =
     (if x = slash \<and> startswith s [slash] then collapse_slashes s
      else x # collapse_slashes s)"
  by (cases s) auto

lemma replace_double_slash_head:
  "startswith (replace_double_slash s) [slash] = startswith s [slash]"
  by (cases s rule: replace_double_slash.cases) auto

lemma collapse_replace_double_slash:
  "collapse_slashes (replace_double_slash s) = collapse_slashes s"
proof (induction s rule: replace_double_slash.induct)
  case (1 a b cs)
  show ?case
  proof (cases "a = slash \<and> b = slash")
    case True
    with 1 have IH: "collapse_slashes (replace_double_slash cs) = collapse_slashes cs"
      by simp
    have "collapse_slashes (replace_double_slash (a # b # cs)) =
          collapse_slashes (slash # replace_double_slash cs)"
      using True by simp
    also have "\<dots> = (if startswith (replace_double_slash cs) [slash]
                      then collapse_slashes (replace_double_slash cs)
                      else slash # collapse_slashes (replace_double_slash cs))"
      by (simp add: collapse_slashes_Cons del: collapse_slashes.simps)
    also have "\<dots> = (if startswith cs [slash] then collapse_slashes cs
                      else slash # collapse_slashes cs)"
      by (simp only: IH replace_double_slash_head)
    also have "\<dots> = collapse_slashes (slash # cs)"
      by (simp add: collapse_slashes_Cons del: collapse_slashes.simps)
    also have "\<dots> = collapse_slashes (a # b # cs)"
      using True by simp
    finally show ?thesis .
  next
    case False
    with 1 have IH:
      "collapse_slashes (replace_double_slash (b # cs)) = collapse_slashes (b # cs)"
      by simp
    have "collapse_slashes (replace_double_slash (a # b # cs)) =
          collapse_slashes (a # replace_double_slash (b # cs))"
      using False by auto
    also have "\<dots> = (if a = slash \<and> startswith (replace_double_slash (b # cs)) [slash]
                      then collapse_slashes (replace_double_slash (b # cs))
                      else a # collapse_slashes (replace_double_slash (b # cs)))"
      by (rule collapse_slashes_Cons)
    also have "\<dots> = (if a = slash \<and> startswith (b # cs) [slash]
                      then collapse_slashes (b # cs)
                      else a # collapse_slashes (b # cs))"
      by (simp only: IH replace_double_slash_head)
    also have "\<dots> = collapse_slashes (a # b # cs)"
      by (rule collapse_slashes_Cons [symmetric])
    finally show ?thesis .
  qed
qed auto

lemma collapse_slashes_fixed:
  "\<not> contains [slash, slash] s \<Longrightarrow> collapse_slashes s = s"
  by (induction s rule: collapse_slashes.induct) auto

lemma join_path_loop_collapse: "join_path_loop s = collapse_slashes s"
proof (induction s rule: join_path_loop.induct)
  case (1 path)
  show ?case
  proof (cases "contains [slash, slash] path")
    case True
    with 1 show ?thesis
      by (simp add: join_path_loop.simps [of path] collapse_replace_double_slash)
  next
    case False
    then show ?thesis
      by (simp add: join_path_loop.simps [of path] collapse_slashes_fixed)
  qed
qed

lemma collapse_slashes_head: "\<exists>r. collapse_slashes (b # cs) = b # r"
  by (induction cs arbitrary: b) auto

lemma collapse_slashes_no_double_slash:
  "\<not> contains [slash, slash] (collapse_slashes s)"
proof (induction s rule: collapse_slashes.induct)
  case (1 a b cs)
  obtain r where r: "collapse_slashes (b # cs) = b # r"
    using collapse_slashes_head by blast
  with 1 show ?case
    by (auto split: if_splits)
qed auto

lemma collapse_slashes_keeps_others:
  "filter (\<lambda>c. c \<noteq> slash) (collapse_slashes s) = filter (\<lambda>c. c \<noteq> slash) s"
  by (induction s rule: collapse_slashes.induct) auto

text \<open>
  Claim C7.  For every list of path segments, \<open>_join_path\<close> returns the segments joined
  by slashes with every run of consecutive slashes, also one inside a segment, collapsed
  into a single slash; no two adjacent slashes are left, and the characters other than
  slashes are those of the joined segments, in their order.  The loop of \<open>_join_path\<close>
  ends on every input: \<open>join_path_loop\<close> is a total function, by the termination
  proof given with its definition.
\<close>

theorem join_path_collapses_runs:
  "join_path rt parts = collapse_slashes (str_join [slash] (map (py_str rt) parts)) \<and>
   join_path rt (map PStr segments) = collapse_slashes (str_join [slash] segments) \<and>
   \<not> contains [slash, slash] (join_path rt parts) \<and>
   filter (\<lambda>c. c \<noteq> slash) (join_path rt parts) =
     filter (\<lambda>c. c \<noteq> slash) (str_join [slash] (map (py_str rt) parts))"
proof -
  have "map (py_str rt) (map PStr segments) = segments"
    by (induction segments) simp_all
  then show ?thesis
    by (simp add: join_path_def join_path_loop_collapse collapse_slashes_no_double_slash
        collapse_slashes_keeps_others)
qed

section \<open>Operations without a session\<close>

text \<open>
  Claim C1.  When the global \<open>sftp_client\<close> is \<open>None\<close>, each of the nine routes of the
  file operations (list, read, write, mkdir, remove, rename, upload, download, stat)
  answers \<open>Not connected\<close> with status 400 and leaves the state as it was: no call is
  added to the calls made, so nothing reaches the network or the local file system.
\<close>

theorem not_connected_without_session:
  assumes "sftp_client s = None"
  shows "api_list rt env path_arg s = (not_connected, s) \<and>
         api_read rt env path_arg max_arg s = (not_connected, s) \<and>
         api_write rt env request_json s = (not_connected, s) \<and>
         api_mkdir rt env request_json s = (not_connected, s) \<and>
         api_remove rt env request_json s = (not_connected, s) \<and>
         api_rename rt env request_json s = (not_connected, s) \<and>
         api_upload rt env file_arg remote_dir_arg s = (not_connected, s) \<and>
         api_download rt env path_arg s = (not_connected, s) \<and>
         api_stat rt env path_arg s = (not_connected, s)"
  using assms
  by (simp add: api_list_def api_read_def api_write_def api_mkdir_def api_remove_def
      api_rename_def api_upload_def api_download_def api_stat_def)

theorem not_connected_without_session_witness:
  "sftp_client idle = None \<and>
   api_list example_runtime quiet (Some (lit ''/home'')) idle = (not_connected, idle) \<and>
   api_read example_runtime quiet (Some (lit ''/home'')) (Some (lit ''10'')) idle =
     (not_connected, idle) \<and>
   api_write example_runtime quiet
     (Inr (PDict [(lit ''path'', PStr (lit ''/a'')), (lit ''content'', PStr (lit ''x''))])) idle =
     (not_connected, idle) \<and>
   api_mkdir example_runtime quiet
     (Inr (PDict [(lit ''path'', PStr (lit ''/a'')), (lit ''content'', PStr (lit ''x''))])) idle =
     (not_connected, idle) \<and>
   api_remove example_runtime quiet
     (Inr (PDict [(lit ''path'', PStr (lit ''/a'')), (lit ''content'', PStr (lit ''x''))])) idle =
     (not_connected, idle) \<and>
   api_rename example_runtime quiet
     (Inr (PDict [(lit ''path'', PStr (lit ''/a'')), (lit ''content'', PStr (lit ''x''))])) idle =
     (not_connected, idle) \<and>
   api_upload example_runtime quiet (Some (lit ''a.txt'')) (Some (lit ''/up'')) idle =
     (not_connected, idle) \<and>
   api_download example_runtime quiet (Some (lit ''/home'')) idle = (not_connected, idle) \<and>
   api_stat example_runtime quiet (Some (lit ''/home'')) idle = (not_connected, idle)"
  using not_connected_without_session
    [of idle example_runtime quiet "Some (lit ''/home'')" "Some (lit ''10'')"
        "Inr (PDict [(lit ''path'', PStr (lit ''/a'')), (lit ''content'', PStr (lit ''x''))])"
        "Some (lit ''a.txt'')" "Some (lit ''/up'')"]
  by (simp add: idle_def)

section \<open>Disconnect\<close>

text \<open>
  Claim C8.  In every state and in every world, also one in which closing the handles
  raises, \<open>disconnect_route\<close> answers with success and leaves no client; the calls it
  makes are those of \<open>close\<close> on the client that was there, whose exceptions are passed
  over.  A second call from the state reached answers with success again and changes
  nothing.
\<close>

theorem disconnect_always_succeeds:
  "fst (disconnect_route env s) = Json 200 Success \<and>
   sftp_client (snd (disconnect_route env s)) = None \<and>
   calls (snd (disconnect_route env s)) = close_existing env s \<and>
   disconnect_route env (snd (disconnect_route env s)) =
     (Json 200 Success, snd (disconnect_route env s))"
proof (cases "sftp_client s")
  case None
  then have "disconnect_route env s = (Json 200 Success, s)"
    by (simp add: disconnect_route_def)
  with None show ?thesis
    by (simp add: close_existing_def)
next
  case (Some c)
  let ?s' = "\<lparr>sftp_client = None, calls = close env c (calls s)\<rparr>"
  from Some have first: "disconnect_route env s = (Json 200 Success, ?s')"
    by (simp add: disconnect_route_def)
  have again: "disconnect_route env ?s' = (Json 200 Success, ?s')"
    by (simp add: disconnect_route_def)
  from Some first again show ?thesis
    by (simp add: close_existing_def)
qed

section \<open>Directory listing\<close>

lemma listdir_items_map:
  "listdir_items rt path attrs = Inr items \<Longrightarrow>
   items = map (\<lambda>a. make_item rt path a (the (st_mode a))) attrs"
  by (induction attrs arbitrary: items) (auto split: option.splits sum.splits)

lemma listdir_items_mset:
  assumes "listdir_items rt path attrs = Inr xs" and "listdir_items rt path attrs' = Inr ys"
    and "mset attrs' = mset attrs"
  shows "mset ys = mset xs"
proof -
  have "mset ys = image_mset (\<lambda>a. make_item rt path a (the (st_mode a))) (mset attrs')"
    using listdir_items_map [OF assms(2)] by simp
  also have "\<dots> = mset xs"
    using listdir_items_map [OF assms(1)] assms(3) by simp
  finally show ?thesis .
qed

lemma sorted_flag_first:
  fixes f :: "'a \<Rightarrow> bool \<times> 'b::linorder"
  assumes "sorted (map f xs)" and "\<And>x. fst (f x) = (\<not> P x)"
  shows "xs = filter P xs @ filter (\<lambda>x. \<not> P x) xs"
  using assms(1)
proof (induction xs)
  case Nil
  then show ?case by simp
next
  case (Cons x xs)
  then have IH: "xs = filter P xs @ filter (\<lambda>x. \<not> P x) xs" and le: "\<forall>y\<in>set xs. f x \<le> f y"
    by auto
  show ?case
  proof (cases "P x")
    case True
    then show ?thesis using IH by simp
  next
    case False
    have "\<not> P y" if "y \<in> set xs" for y
    proof -
      have "f x \<le> f y" using le that by blast
      moreover have "fst (f x) = True" using False assms(2) by simp
      ultimately have "fst (f y) = True"
        by (cases "f x"; cases "f y") (auto simp: less_eq_prod_def)
      then show ?thesis using assms(2) by simp
    qed
    then have "filter P xs = []" and "filter (\<lambda>x. \<not> P x) xs = xs"
      by (auto simp: filter_empty_conv filter_id_conv)
    then show ?thesis using False by simp
  qed
qed

lemma sorted_same_flag:
  fixes f :: "'a \<Rightarrow> bool \<times> 'b::linorder"
  assumes "sorted (map f xs)" and "\<And>x. x \<in> set xs \<Longrightarrow> fst (f x) = b"
  shows "sorted (map (\<lambda>x. snd (f x)) xs)"
  using assms
proof (induction xs)
  case Nil
  then show ?case by simp
next
  case (Cons x xs)
  have "snd (f x) \<le> snd (f y)" if "y \<in> set xs" for y
  proof -
    have "f x \<le> f y" using Cons.prems(1) that by auto
    moreover have "fst (f x) = fst (f y)" using Cons.prems(2) that by simp
    ultimately show ?thesis
      by (cases "f x"; cases "f y") (auto simp: less_eq_prod_def)
  qed
  then show ?case using Cons by auto
qed


lemma listdir_RList:
  assumes "listdir rt env self path tr = (RList items, tr1)" and "sftp self = Some h"
  shows "\<exists>unsorted. listdir_items rt path (listed env tr (SFTP_listdir_attr h path)) = Inr unsorted \<and>
           items = sort_key (item_key rt) unsorted"
  using assms
  by (auto simp: listdir_def sftp_attr_def listdir_error_def perform_def
      split: option.splits sum.splits)

text \<open>
  Claim C2, as amended.  Whatever order the transport returns the entries in, a listing
  is sorted by the key (not a directory, lowered name): the directories come first, and
  the directories and the other entries are each in the order of their lowered names.
  The sort is stable: the listing is a permutation of the entries, and entries with the
  same key keep the order the transport gave them.  So the listing is the same for every
  order of the same entries when no two entries have the same key; it is not in general.
\<close>

theorem listdir_sorted_stable:
  assumes "listdir rt env self path tr = (RList items, tr1)" and "sftp self = Some h"
  shows "sorted (map (item_key rt) items) \<and>
         items = filter item_is_dir items @ filter (\<lambda>i. \<not> item_is_dir i) items \<and>
         sorted (map (\<lambda>i. str_lower rt (item_name i)) (filter item_is_dir items)) \<and>
         sorted (map (\<lambda>i. str_lower rt (item_name i)) (filter (\<lambda>i. \<not> item_is_dir i) items)) \<and>
         (\<exists>unsorted.
            listdir_items rt path (listed env tr (SFTP_listdir_attr h path)) = Inr unsorted \<and>
            mset items = mset unsorted \<and>
            (\<forall>k. filter (\<lambda>i. item_key rt i = k) items =
                  filter (\<lambda>i. item_key rt i = k) unsorted)) \<and>
         (\<forall>env' tr' items' tr1'.
            listdir rt env' self path tr' = (RList items', tr1') \<and>
            mset (listed env' tr' (SFTP_listdir_attr h path)) =
              mset (listed env tr (SFTP_listdir_attr h path)) \<and>
            distinct (map (item_key rt) items) \<longrightarrow>
            items' = items)"
proof -
  obtain unsorted where
    u: "listdir_items rt path (listed env tr (SFTP_listdir_attr h path)) = Inr unsorted" and
    items: "items = sort_key (item_key rt) unsorted"
    using listdir_RList [OF assms] by blast
  have sorted: "sorted (map (item_key rt) items)"
    by (simp add: items)
  have flag: "fst (item_key rt i) = (\<not> item_is_dir i)" for i
    by (simp add: item_key_def)
  have split: "items = filter item_is_dir items @ filter (\<lambda>i. \<not> item_is_dir i) items"
    using sorted flag by (rule sorted_flag_first)
  have part: "sorted (map (item_key rt) (filter P items))" for P
    using sorted by (rule sorted_filter)
  have "sorted (map (\<lambda>i. snd (item_key rt i)) (filter item_is_dir items))"
    by (rule sorted_same_flag [OF part, where b = False]) (simp add: flag)
  then have dirs: "sorted (map (\<lambda>i. str_lower rt (item_name i)) (filter item_is_dir items))"
    by (simp add: item_key_def)
  have "sorted (map (\<lambda>i. snd (item_key rt i)) (filter (\<lambda>i. \<not> item_is_dir i) items))"
    by (rule sorted_same_flag [OF part, where b = True]) (simp add: flag)
  then have files:
    "sorted (map (\<lambda>i. str_lower rt (item_name i)) (filter (\<lambda>i. \<not> item_is_dir i) items))"
    by (simp add: item_key_def)
  have stable: "\<exists>unsorted.
            listdir_items rt path (listed env tr (SFTP_listdir_attr h path)) = Inr unsorted \<and>
            mset items = mset unsorted \<and>
            (\<forall>k. filter (\<lambda>i. item_key rt i = k) items =
                  filter (\<lambda>i. item_key rt i = k) unsorted)"
    using u by (auto simp: items sort_key_stable)
  have determined: "items' = items"
    if other: "listdir rt env' self path tr' = (RList items', tr1')"
      and same: "mset (listed env' tr' (SFTP_listdir_attr h path)) =
                 mset (listed env tr (SFTP_listdir_attr h path))"
      and keys: "distinct (map (item_key rt) items)"
    for env' tr' items' tr1'
  proof -
    obtain unsorted' where
      u': "listdir_items rt path (listed env' tr' (SFTP_listdir_attr h path)) = Inr unsorted'" and
      items': "items' = sort_key (item_key rt) unsorted'"
      using listdir_RList [OF other assms(2)] by blast
    have m: "mset unsorted' = mset unsorted"
      using listdir_items_mset [OF u u' same] .
    have "distinct (map (item_key rt) unsorted)"
      using keys mset_sort [of "item_key rt" unsorted]
      by (metis items distinct_map mset_eq_setD mset_eq_imp_distinct_iff inj_on_cong)
    then have inj: "inj_on (item_key rt) (set unsorted')"
      using m by (metis distinct_map mset_eq_setD)
    have "sort_key (item_key rt) unsorted' = items"
      by (rule sort_key_inj_key_eq [OF _ inj sorted]) (simp add: m items)
    then show ?thesis by (simp add: items')
  qed
  from sorted split dirs files stable determined show ?thesis
    by blast
qed

theorem listdir_sorted_stable_witness:
  "listdir example_runtime (listing [file_attrs (lit ''readme.txt''), dir_attrs (lit ''bin'')])
     connected_client (PStr (lit ''/'')) [] =
     (RList [make_item example_runtime (PStr (lit ''/'')) (dir_attrs (lit ''bin'')) 0x41ED,
             make_item example_runtime (PStr (lit ''/'')) (file_attrs (lit ''readme.txt'')) 0x81A4],
      [SFTP_listdir_attr 2 (PStr (lit ''/''))]) \<and>
   sftp connected_client = Some 2 \<and>
   mset (listed (listing [dir_attrs (lit ''bin''), file_attrs (lit ''readme.txt'')]) []
           (SFTP_listdir_attr 2 (PStr (lit ''/'')))) =
   mset (listed (listing [file_attrs (lit ''readme.txt''), dir_attrs (lit ''bin'')]) []
           (SFTP_listdir_attr 2 (PStr (lit ''/'')))) \<and>
   listdir example_runtime (listing [dir_attrs (lit ''bin''), file_attrs (lit ''readme.txt'')])
     connected_client (PStr (lit ''/'')) [] =
     (RList [make_item example_runtime (PStr (lit ''/'')) (dir_attrs (lit ''bin'')) 0x41ED,
             make_item example_runtime (PStr (lit ''/'')) (file_attrs (lit ''readme.txt'')) 0x81A4],
      [SFTP_listdir_attr 2 (PStr (lit ''/''))]) \<and>
   distinct (map (item_key example_runtime)
     [make_item example_runtime (PStr (lit ''/'')) (dir_attrs (lit ''bin'')) 0x41ED,
      make_item example_runtime (PStr (lit ''/'')) (file_attrs (lit ''readme.txt'')) 0x81A4]) \<and>
   sorted (map (item_key example_runtime)
     [make_item example_runtime (PStr (lit ''/'')) (dir_attrs (lit ''bin'')) 0x41ED,
      make_item example_runtime (PStr (lit ''/'')) (file_attrs (lit ''readme.txt'')) 0x81A4])"
proof -
  let ?items =
    "[make_item example_runtime (PStr (lit ''/'')) (dir_attrs (lit ''bin'')) 0x41ED,
      make_item example_runtime (PStr (lit ''/'')) (file_attrs (lit ''readme.txt'')) 0x81A4]"
  have h1: "listdir example_runtime
              (listing [file_attrs (lit ''readme.txt''), dir_attrs (lit ''bin'')])
              connected_client (PStr (lit ''/'')) [] =
            (RList ?items, [SFTP_listdir_attr 2 (PStr (lit ''/''))])"
    by (simp add: listdir_def sftp_attr_def connected_client_def perform_def listing_def
        quiet_def make_item_def S_ISDIR_def item_key_def example_runtime_def ascii_lower_def
        lit_def file_attrs_def dir_attrs_def)
  have h2: "sftp connected_client = Some 2"
    by (simp add: connected_client_def)
  have h3: "listdir example_runtime
              (listing [dir_attrs (lit ''bin''), file_attrs (lit ''readme.txt'')])
              connected_client (PStr (lit ''/'')) [] =
            (RList ?items, [SFTP_listdir_attr 2 (PStr (lit ''/''))])"
    by (simp add: listdir_def sftp_attr_def connected_client_def perform_def listing_def
        quiet_def make_item_def S_ISDIR_def item_key_def example_runtime_def ascii_lower_def
        lit_def file_attrs_def dir_attrs_def)
  have h4: "distinct (map (item_key example_runtime) ?items)"
    by (simp add: make_item_def S_ISDIR_def item_key_def example_runtime_def ascii_lower_def
        lit_def file_attrs_def dir_attrs_def)
  have h5: "mset (listed (listing [dir_attrs (lit ''bin''), file_attrs (lit ''readme.txt'')]) []
                     (SFTP_listdir_attr 2 (PStr (lit ''/'')))) =
            mset (listed (listing [file_attrs (lit ''readme.txt''), dir_attrs (lit ''bin'')]) []
                     (SFTP_listdir_attr 2 (PStr (lit ''/''))))"
    by (simp add: listing_def quiet_def)
  from listdir_sorted_stable [OF h1 h2] have "sorted (map (item_key example_runtime) ?items)"
    by blast
  with h1 h2 h3 h4 h5 show ?thesis
    by blast
qed

text \<open>
  The claim as stated fails: two files whose names differ only in case have the same
  key, and the listing keeps them in the order of the transport.
\<close>

theorem listdir_order_counterexample:
  "mset [file_attrs (lit ''README''), file_attrs (lit ''readme'')] =
   mset [file_attrs (lit ''readme''), file_attrs (lit ''README'')] \<and>
   fst (listdir example_runtime
          (listing [file_attrs (lit ''README''), file_attrs (lit ''readme'')])
          connected_client (PStr (lit ''/'')) []) \<noteq>
   fst (listdir example_runtime
          (listing [file_attrs (lit ''readme''), file_attrs (lit ''README'')])
          connected_client (PStr (lit ''/'')) [])"
  by (simp add: listdir_def sftp_attr_def connected_client_def perform_def listing_def
      quiet_def make_item_def S_ISDIR_def item_key_def example_runtime_def ascii_lower_def
      lit_def file_attrs_def dir_attrs_def)

section \<open>Results of the operations\<close>

text \<open>
  Claim C4.  The claim is that a successful read is reported as a success whatever the
  file holds.  \<open>read_file\<close> returns a \<open>str\<close> for the content and for an error alike, and
  \<open>api_read\<close> takes a result that starts with \<open>Error:\<close> for an error.  Here a file
  holds the text \<open>Error: disk full\<close>; it is opened, read and closed without any
  exception, \<open>read_file\<close> returns its content, and \<open>api_read\<close> answers with a failure
  and status 500.
\<close>

theorem api_read_reports_content_as_failure:
  "read_file example_runtime (serving (map of_nat (lit ''Error: disk full'')))
     connected_client (PStr (lit ''/var/log/app.log'')) None [] =
     (RStr (lit ''Error: disk full''),
      [SFTP_open 2 (PStr (lit ''/var/log/app.log'')) (lit ''rb''),
       File_read 2 (PStr (lit ''/var/log/app.log'')) None,
       File_close 2 (PStr (lit ''/var/log/app.log''))]) \<and>
   fst (api_read example_runtime (serving (map of_nat (lit ''Error: disk full'')))
          (Some (lit ''/var/log/app.log'')) None in_session) =
     Json 500 (Failure (RStr (lit ''Error: disk full'')))"
  by (simp add: api_read_def read_file_def sftp_attr_def connected_client_def in_session_def
      perform_def serving_def quiet_def arg_value_def max_bytes_of_def utf8_decode_replace_def
      decode_step_def lit_def Let_def)

section \<open>Remove\<close>




section \<open>Download of a directory\<close>

text \<open>
  Claim C6.  A download of a path that \<open>stat\<close> reports as a directory, with the
  temporary file made and its descriptor closed: \<open>download_to_local\<close> returns the
  message that the path is a directory after the one call \<open>stat\<close>, and \<open>api_download\<close>
  answers with that message and status 500.  The calls made are \<open>mkstemp\<close>, the closing
  of the descriptor, \<open>stat\<close> and \<open>os.remove\<close> of the temporary file, in this order:
  there is no \<open>sftp.get\<close>, so nothing is written to the temporary file, and its removal
  is the last call.
\<close>

theorem download_of_directory:
  assumes "sftp_client s = Some c" and "sftp c = Some h" and "path \<noteq> []"
    and "tmp = temp_path env (calls s) Mkstemp"
    and "raises env (calls s) Mkstemp = None"
    and "raises env (calls s @ [Mkstemp]) (Os_close tmp) = None"
    and "raises env (calls s @ [Mkstemp, Os_close tmp]) (SFTP_stat h (PStr path)) = None"
    and "st_mode (stat_result env (calls s @ [Mkstemp, Os_close tmp]) (SFTP_stat h (PStr path))) =
           Some m"
    and "S_ISDIR m"
  shows "download_to_local rt env c (PStr path) tmp (calls s @ [Mkstemp, Os_close tmp]) =
           (RStr (lit ''Error: '' @ [apostrophe] @ path @ [apostrophe] @ lit '' is a directory''),
            calls s @ [Mkstemp, Os_close tmp, SFTP_stat h (PStr path)]) \<and>
         api_download rt env (Some path) s =
           (Json 500 (Failure
              (RStr (lit ''Error: '' @ [apostrophe] @ path @ [apostrophe] @ lit '' is a directory''))),
            s\<lparr>calls := calls s @ [Mkstemp, Os_close tmp, SFTP_stat h (PStr path), Os_remove tmp]\<rparr>)"
  using assms
  by (simp add: api_download_def download_to_local_def sftp_attr_def perform_def arg_value_def
      is_a_directory_def Let_def)


theorem download_of_directory_witness:
  "sftp_client in_session = Some connected_client \<and>
   sftp connected_client = Some 2 \<and>
   S_ISDIR 0x41ED \<and>
   api_download example_runtime all_directories (Some (lit ''/srv'')) in_session =
     (Json 500 (Failure (RStr (lit ''Error: '' @ [apostrophe] @ lit ''/srv'' @ [apostrophe] @
                               lit '' is a directory''))),
      in_session\<lparr>calls := [Mkstemp, Os_close (lit ''/tmp/tmp0''),
                           SFTP_stat 2 (PStr (lit ''/srv'')), Os_remove (lit ''/tmp/tmp0'')]\<rparr>)"
proof -
  have h1: "sftp_client in_session = Some connected_client"
    by (simp add: in_session_def)
  have h2: "sftp connected_client = Some 2"
    by (simp add: connected_client_def)
  have h3: "lit ''/srv'' \<noteq> []"
    by (simp add: lit_def)
  have h4: "lit ''/tmp/tmp0'' = temp_path all_directories (calls in_session) Mkstemp"
    by (simp add: all_directories_def quiet_def)
  have h5: "raises all_directories tr c = None" for tr c
    by (simp add: all_directories_def quiet_def)
  have h6: "st_mode (stat_result all_directories tr c) = Some 0x41ED" for tr c
    by (simp add: all_directories_def quiet_def dir_attrs_def)
  have h7: "S_ISDIR 0x41ED"
    by (simp add: S_ISDIR_def)
  from download_of_directory [OF h1 h2 h3 h4 h5 h5 h5 h6 h7, of example_runtime]
  have "api_download example_runtime all_directories (Some (lit ''/srv'')) in_session =
     (Json 500 (Failure (RStr (lit ''Error: '' @ [apostrophe] @ lit ''/srv'' @ [apostrophe] @
                               lit '' is a directory''))),
      in_session\<lparr>calls := [Mkstemp, Os_close (lit ''/tmp/tmp0''),
                           SFTP_stat 2 (PStr (lit ''/srv'')), Os_remove (lit ''/tmp/tmp0'')]\<rparr>)"
    by (simp add: in_session_def)
  with h1 h2 h7 show ?thesis
    by simp
qed


section \<open>Connect\<close>

lemma close_calls:
  assumes "sftp self = Some h" and "client self = Some k"
  shows "close env self tr =
           tr @ SFTP_close h # (if raises env tr (SFTP_close h) = None then [SSH_close k] else [])"
  using assms by (auto simp: close_def perform_def split: option.splits)

lemma connect_calls:
  "\<exists>rest. snd (snd (connect env self tr)) =
     tr @ New_SSHClient (length tr) #
       SSH_connect (length tr) (host self) (port self) (username self) (password self) # rest"
  by (auto simp: connect_def perform_def Let_def split: option.splits)

text \<open>
  The path on which \<open>connect_route\<close> reaches \<open>sftp_client = None\<close>: the request passes
  the validation, \<open>int(port)\<close> returns, and \<open>SFTPClient.connect\<close> returns an error
  message instead of \<open>True\<close>.  The request is answered with that message and status
  500, and the global \<open>sftp_client\<close> is \<open>None\<close>.  A client that was there before was
  closed before the attempt: its channel is closed first and, when that raises nothing,
  its \<open>SSHClient\<close>; the new \<open>SSHClient\<close> and its \<open>connect\<close> come after.  The previous
  client is not put back, so each of the nine routes of the file operations then answers
  \<open>Not connected\<close>.
\<close>

theorem failed_connect_leaves_no_session:
  assumes "request_data request_json = Inr data"
    and "host' = dict_get data (lit ''host'')"
    and "username' = dict_get data (lit ''username'')"
    and "password' = dict_get data (lit ''password'')"
    and "truthy host'" and "truthy username'" and "password' \<noteq> PNone"
    and "py_int rt (dict_get_default data (lit ''port'') (PInt 22)) = Inr p"
    and "tr1 = close_existing env s"
    and "connect env \<lparr>host = host', port = p, username = username', password = password',
                       client = None, sftp = None\<rparr> tr1 = (res, self', tr2)"
    and "res \<noteq> RTrue"
    and "s' = snd (connect_route rt env request_json s)"
  shows "connect_route rt env request_json s =
           (Json 500 (Failure res), \<lparr>sftp_client = None, calls = tr2\<rparr>) \<and>
         sftp_client s' = None \<and>
         (\<forall>old h k. sftp_client s = Some old \<and> sftp old = Some h \<and> client old = Some k \<longrightarrow>
            tr1 = calls s @ SFTP_close h #
                    (if raises env (calls s) (SFTP_close h) = None then [SSH_close k] else [])) \<and>
         (\<exists>rest. calls s' =
            tr1 @ New_SSHClient (length tr1) #
              SSH_connect (length tr1) host' p username' password' # rest) \<and>
         api_list rt env path_arg s' = (not_connected, s') \<and>
         api_read rt env path_arg max_arg s' = (not_connected, s') \<and>
         api_write rt env request_json' s' = (not_connected, s') \<and>
         api_mkdir rt env request_json' s' = (not_connected, s') \<and>
         api_remove rt env request_json' s' = (not_connected, s') \<and>
         api_rename rt env request_json' s' = (not_connected, s') \<and>
         api_upload rt env file_arg remote_dir_arg s' = (not_connected, s') \<and>
         api_download rt env path_arg s' = (not_connected, s') \<and>
         api_stat rt env path_arg s' = (not_connected, s')"
proof -
  have route: "connect_route rt env request_json s =
           (Json 500 (Failure res), \<lparr>sftp_client = None, calls = tr2\<rparr>)"
    using assms(1-11) by (simp add: connect_route_def Let_def)
  then have s': "s' = \<lparr>sftp_client = None, calls = tr2\<rparr>"
    using assms(12) by simp
  have none: "sftp_client s' = None"
    by (simp add: s')
  have closed: "\<forall>old h k. sftp_client s = Some old \<and> sftp old = Some h \<and> client old = Some k \<longrightarrow>
            tr1 = calls s @ SFTP_close h #
                    (if raises env (calls s) (SFTP_close h) = None then [SSH_close k] else [])"
    using assms(9) by (auto simp: close_existing_def close_calls)
  have attempt: "\<exists>rest. calls s' =
            tr1 @ New_SSHClient (length tr1) #
              SSH_connect (length tr1) host' p username' password' # rest"
    using connect_calls [of env "\<lparr>host = host', port = p, username = username',
        password = password', client = None, sftp = None\<rparr>" tr1] assms(10)
    by (simp add: s')
  have ops: "api_list rt env path_arg s' = (not_connected, s') \<and>
         api_read rt env path_arg max_arg s' = (not_connected, s') \<and>
         api_write rt env request_json' s' = (not_connected, s') \<and>
         api_mkdir rt env request_json' s' = (not_connected, s') \<and>
         api_remove rt env request_json' s' = (not_connected, s') \<and>
         api_rename rt env request_json' s' = (not_connected, s') \<and>
         api_upload rt env file_arg remote_dir_arg s' = (not_connected, s') \<and>
         api_download rt env path_arg s' = (not_connected, s') \<and>
         api_stat rt env path_arg s' = (not_connected, s')"
    using none
    by (simp add: api_list_def api_read_def api_write_def api_mkdir_def api_remove_def
        api_rename_def api_upload_def api_download_def api_stat_def)
  from route none closed attempt ops show ?thesis
    by blast
qed

theorem failed_connect_leaves_no_session_witness:
  "connect_route example_runtime rejecting_login (Inr (credentials (lit ''bad''))) in_session =
     (Json 500 (Failure (RStr (lit ''Error: Authentication failed - Authentication failed.''))),
      \<lparr>sftp_client = None,
       calls = [SFTP_close 2, SSH_close 0, New_SSHClient 2,
                SSH_connect 2 (PStr (lit ''h'')) 22 (PStr (lit ''u'')) (PStr (lit ''bad''))]\<rparr>) \<and>
   api_list example_runtime rejecting_login (Some (lit ''/''))
     (snd (connect_route example_runtime rejecting_login (Inr (credentials (lit ''bad'')))
             in_session)) =
     (not_connected,
      snd (connect_route example_runtime rejecting_login (Inr (credentials (lit ''bad'')))
             in_session))"
proof -
  let ?data = "[(lit ''host'', PStr (lit ''h'')), (lit ''username'', PStr (lit ''u'')),
                (lit ''password'', PStr (lit ''bad''))]"
  let ?tr1 = "[SFTP_close 2, SSH_close 0]"
  let ?tr2 = "[SFTP_close 2, SSH_close 0, New_SSHClient 2,
               SSH_connect 2 (PStr (lit ''h'')) 22 (PStr (lit ''u'')) (PStr (lit ''bad''))]"
  let ?res = "RStr (lit ''Error: Authentication failed - Authentication failed.'')"
  have h1: "request_data (Inr (credentials (lit ''bad''))) = Inr ?data"
    by (simp add: request_data_def credentials_def)
  have h2: "PStr (lit ''h'') = dict_get ?data (lit ''host'')"
    by (simp add: dict_get_def lit_def)
  have h3: "PStr (lit ''u'') = dict_get ?data (lit ''username'')"
    by (simp add: dict_get_def lit_def)
  have h4: "PStr (lit ''bad'') = dict_get ?data (lit ''password'')"
    by (simp add: dict_get_def lit_def)
  have h5: "truthy (PStr (lit ''h''))" and h6: "truthy (PStr (lit ''u''))"
    by (simp_all add: lit_def)
  have h7: "PStr (lit ''bad'') \<noteq> PNone"
    by simp
  have h8: "py_int example_runtime (dict_get_default ?data (lit ''port'') (PInt 22)) = Inr 22"
    by (simp add: dict_get_default_def lit_def)
  have h9: "?tr1 = close_existing rejecting_login in_session"
    by (simp add: close_existing_def close_def in_session_def connected_client_def perform_def
        rejecting_login_def quiet_def)
  have h10: "connect rejecting_login
               \<lparr>host = PStr (lit ''h''), port = 22, username = PStr (lit ''u''),
                password = PStr (lit ''bad''), client = None, sftp = None\<rparr> ?tr1 =
             (?res,
              \<lparr>host = PStr (lit ''h''), port = 22, username = PStr (lit ''u''),
               password = PStr (lit ''bad''), client = Some 2, sftp = None\<rparr>, ?tr2)"
    by (simp add: connect_def perform_def rejecting_login_def quiet_def connect_error_def Let_def
        lit_def)
  have h11: "?res \<noteq> RTrue"
    by simp
  note T = failed_connect_leaves_no_session
    [OF h1 h2 h3 h4 h5 h6 h7 h8 h9 h10 h11 refl,
     of "Some (lit ''/'')" None "Inr PNone" None None]
  from T have route:
    "connect_route example_runtime rejecting_login (Inr (credentials (lit ''bad''))) in_session =
       (Json 500 (Failure ?res), \<lparr>sftp_client = None, calls = ?tr2\<rparr>)"
    by (rule conjunct1)
  from T have listing:
    "api_list example_runtime rejecting_login (Some (lit ''/''))
       (snd (connect_route example_runtime rejecting_login (Inr (credentials (lit ''bad'')))
               in_session)) =
     (not_connected,
      snd (connect_route example_runtime rejecting_login (Inr (credentials (lit ''bad'')))
             in_session))"
    by (elim conjE)
  from route listing show ?thesis
    by (rule conjI)
qed

text \<open>
  Claim C9.  The claim is that a connect request which passes the validation and does
  not end in a connection leaves no client, so that every later file operation answers
  \<open>Not connected\<close>.  The validation does not look at the port.  Here a session is live
  and the request has a host, a user name, a password and the port \<open>abc\<close>.  The
  previous client is closed, then \<open>int(port)\<close> raises \<open>ValueError\<close> in
  \<open>SFTPClient.__init__\<close>, before the global is assigned: the exception leaves the
  route, and the global still holds the client that was just closed.  The listing that
  follows is made through the closed channel and is answered with the error of the
  transport and status 500, not with \<open>Not connected\<close>.
\<close>

theorem connect_route_bad_port_keeps_closed_client:
  "connect_route example_runtime hanging_up (Inr bad_port_request) in_session =
     (Unhandled (Exn OtherException (lit ''ValueError'')
                   (lit ''invalid literal for int() with base 10: '' @
                    [apostrophe] @ lit ''abc'' @ [apostrophe])),
      \<lparr>sftp_client = Some connected_client, calls = [SFTP_close 2, SSH_close 0]\<rparr>) \<and>
   api_list example_runtime hanging_up (Some (lit ''/''))
     \<lparr>sftp_client = Some connected_client, calls = [SFTP_close 2, SSH_close 0]\<rparr> =
     (Json 500 (Failure (RStr (lit ''Error: Socket is closed''))),
      \<lparr>sftp_client = Some connected_client,
       calls = [SFTP_close 2, SSH_close 0, SFTP_listdir_attr 2 (PStr (lit ''/''))]\<rparr>) \<and>
   Json 500 (Failure (RStr (lit ''Error: Socket is closed''))) \<noteq> not_connected"
  by (simp add: connect_route_def request_data_def bad_port_request_def dict_get_def
      dict_get_default_def close_existing_def close_def in_session_def connected_client_def
      perform_def hanging_up_def quiet_def example_runtime_def decimal_def api_list_def
      listdir_def listdir_error_def sftp_attr_def not_connected_def lit_def Let_def)

text \<open>
  The two steps in one: after the request the global holds the previous client, and the
  listing made in the state reached is not answered with \<open>Not connected\<close>.
\<close>

theorem connect_route_bad_port_keeps_closed_client_witness:
  "sftp_client (snd (connect_route example_runtime hanging_up (Inr bad_port_request) in_session)) =
     Some connected_client \<and>
   fst (api_list example_runtime hanging_up (Some (lit ''/''))
          (snd (connect_route example_runtime hanging_up (Inr bad_port_request) in_session))) \<noteq>
     not_connected"
  using connect_route_bad_port_keeps_closed_client
  by simp

text \<open>
  Claim C10.  A connect request in which \<open>host\<close> or \<open>username\<close> is missing or the empty
  string, or in which there is no \<open>password\<close>, is answered with status 400 and the
  message that the three are required, and the state is as before: nothing was closed
  and no connection attempted.  A request with a host, a user name and the empty string
  as password is not refused in this way, and when its port converts, \<open>connect\<close> of the
  new \<open>SSHClient\<close> is called with the empty password.
\<close>

theorem connect_validation:
  assumes "request_data request_json = Inr data"
    and "host' = dict_get data (lit ''host'')"
    and "username' = dict_get data (lit ''username'')"
    and "port' = dict_get_default data (lit ''port'') (PInt 22)"
  shows "(map_of data (lit ''host'') = None \<or> host' = PStr [] \<or>
          map_of data (lit ''username'') = None \<or> username' = PStr [] \<or>
          map_of data (lit ''password'') = None \<longrightarrow>
            connect_route rt env request_json s = (credentials_required, s)) \<and>
         (truthy host' \<and> truthy username' \<and> map_of data (lit ''password'') = Some (PStr []) \<longrightarrow>
            fst (connect_route rt env request_json s) \<noteq> credentials_required \<and>
            (\<forall>p. py_int rt port' = Inr p \<longrightarrow>
               SSH_connect (length (close_existing env s)) host' p username' (PStr [])
                 \<in> set (calls (snd (connect_route rt env request_json s)))))"
proof -
  have reject: "connect_route rt env request_json s = (credentials_required, s)"
    if "map_of data (lit ''host'') = None \<or> host' = PStr [] \<or>
        map_of data (lit ''username'') = None \<or> username' = PStr [] \<or>
        map_of data (lit ''password'') = None"
    using that assms by (auto simp: connect_route_def Let_def dict_get_def)
  have accept: "fst (connect_route rt env request_json s) \<noteq> credentials_required \<and>
            (\<forall>p. py_int rt port' = Inr p \<longrightarrow>
               SSH_connect (length (close_existing env s)) host' p username' (PStr [])
                 \<in> set (calls (snd (connect_route rt env request_json s))))"
    if t: "truthy host'" "truthy username'" "map_of data (lit ''password'') = Some (PStr [])"
  proof -
    have pw: "dict_get data (lit ''password'') = PStr []"
      using t(3) by (simp add: dict_get_def)
    let ?self = "\<lparr>host = host', port = p, username = username', password = PStr [],
                   client = None, sftp = None\<rparr>"
    have not400: "fst (connect_route rt env request_json s) \<noteq> credentials_required"
      using assms t(1,2) pw
      by (auto simp: connect_route_def Let_def credentials_required_def
          split: sum.splits prod.splits)
    have called: "SSH_connect (length (close_existing env s)) host' p username' (PStr [])
                 \<in> set (calls (snd (connect_route rt env request_json s)))"
      if p: "py_int rt port' = Inr p" for p
    proof -
      let ?self = "\<lparr>host = host', port = p, username = username', password = PStr [],
                     client = None, sftp = None\<rparr>"
      obtain rest where "snd (snd (connect env ?self (close_existing env s))) =
          close_existing env s @ New_SSHClient (length (close_existing env s)) #
            SSH_connect (length (close_existing env s)) host' p username' (PStr []) # rest"
        using connect_calls [of env ?self "close_existing env s"] by auto
      moreover have "calls (snd (connect_route rt env request_json s)) =
          snd (snd (connect env ?self (close_existing env s)))"
        using assms t(1,2) pw p
        by (auto simp: connect_route_def Let_def split: prod.splits)
      ultimately show ?thesis by simp
    qed
    from not400 called show ?thesis by blast
  qed
  from reject accept show ?thesis by blast
qed


theorem connect_validation_witness:
  "connect_route example_runtime quiet
     (Inr (PDict [(lit ''host'', PStr (lit ''h'')), (lit ''username'', PStr (lit ''u''))])) idle =
     (credentials_required, idle) \<and>
   fst (connect_route example_runtime quiet (Inr (credentials [])) idle) \<noteq>
     credentials_required \<and>
   SSH_connect 0 (PStr (lit ''h'')) 22 (PStr (lit ''u'')) (PStr [])
     \<in> set (calls (snd (connect_route example_runtime quiet (Inr (credentials [])) idle)))"
proof -
  let ?d1 = "[(lit ''host'', PStr (lit ''h'')), (lit ''username'', PStr (lit ''u''))]"
  let ?d2 = "[(lit ''host'', PStr (lit ''h'')), (lit ''username'', PStr (lit ''u'')),
              (lit ''password'', PStr [])]"
  have a1: "request_data (Inr (PDict ?d1)) = Inr ?d1"
    by (simp add: request_data_def)
  have a2: "map_of ?d1 (lit ''password'') = None"
    by (simp add: lit_def)
  from connect_validation [OF a1 refl refl refl, of example_runtime quiet idle] a2
  have r1: "connect_route example_runtime quiet (Inr (PDict ?d1)) idle =
              (credentials_required, idle)"
    by blast
  have b1: "request_data (Inr (credentials [])) = Inr ?d2"
    by (simp add: request_data_def credentials_def)
  have b2: "dict_get ?d2 (lit ''host'') = PStr (lit ''h'')"
    and b3: "dict_get ?d2 (lit ''username'') = PStr (lit ''u'')"
    and b4: "map_of ?d2 (lit ''password'') = Some (PStr [])"
    and b5: "py_int example_runtime (dict_get_default ?d2 (lit ''port'') (PInt 22)) = Inr 22"
    by (simp_all add: dict_get_def dict_get_default_def lit_def)
  have b6: "truthy (PStr (lit ''h''))" and b7: "truthy (PStr (lit ''u''))"
    by (simp_all add: lit_def)
  have b8: "length (close_existing quiet idle) = 0"
    by (simp add: close_existing_def idle_def)
  from connect_validation [OF b1 refl refl refl, of example_runtime quiet idle]
    b2 b3 b4 b5 b6 b7 b8
  have r2: "fst (connect_route example_runtime quiet (Inr (credentials [])) idle) \<noteq>
              credentials_required \<and>
            SSH_connect 0 (PStr (lit ''h'')) 22 (PStr (lit ''u'')) (PStr [])
              \<in> set (calls (snd (connect_route example_runtime quiet (Inr (credentials []))
                                    idle)))"
    by simp
  from r1 r2 show ?thesis
    by blast
qed


section \<open>Writing and reading back\<close>

lemma decode_one_byte:
  assumes "c < 0x80"
  shows "decode_replace (c # rest) = c # decode_replace rest"
  using assms by (simp add: decode_step_def)

lemma div_4096: "(c::nat) div 4096 = c div 64 div 64"
proof -
  have "c div (64 * 64) = c div 64 div 64" by (rule div_mult2_eq)
  then show ?thesis by simp
qed

lemma div_262144: "(c::nat) div 262144 = c div 64 div 64 div 64"
proof -
  have "c div (4096 * 64) = c div 4096 div 64" by (rule div_mult2_eq)
  then show ?thesis by (simp add: div_4096)
qed

lemma decode_two_bytes:
  assumes "0x80 \<le> c" and "c < 0x800"
  shows "decode_replace ((0xC0 + c div 64) # (0x80 + c mod 64) # rest) = c # decode_replace rest"
proof -
  define q r where "q = c div 64" and "r = c mod 64"
  have c: "c = 64 * q + r" and r: "r < 64"
    by (simp_all add: q_def r_def)
  have "2 \<le> q" and "q < 32"
    using assms c r by simp_all
  then have "decode_step (0xC0 + q) ((0x80 + r) # rest) = (c, 1)"
    using r c by (simp add: decode_step_def is_continuation_def)
  then show ?thesis by (simp add: q_def r_def)
qed

lemma decode_three_bytes:
  assumes "0x800 \<le> c" and "c < 0x10000" and "\<not> is_surrogate c"
  shows "decode_replace
           ((0xE0 + c div 4096) # (0x80 + (c div 64) mod 64) # (0x80 + c mod 64) # rest) =
         c # decode_replace rest"
proof -
  define a where "a = c div 64"
  define p q r where "p = a div 64" and "q = a mod 64" and "r = c mod 64"
  have "c = 64 * a + r" and "a = 64 * p + q"
    by (simp_all add: a_def p_def q_def r_def)
  then have c: "c = 4096 * p + 64 * q + r"
    by simp
  have q: "q < 64" and r: "r < 64"
    by (simp_all add: q_def r_def)
  have p: "p < 16"
    using assms(2) c by simp
  have low: "32 \<le> q" if "p = 0"
    using that assms(1) c r by simp
  have sur: "q < 32" if "p = 13"
  proof -
    have "c \<le> 57343"
      using that c q r by simp
    then have "c < 55296"
      using assms(3) by (simp add: is_surrogate_def)
    then show ?thesis
      using that c by simp
  qed
  have v: "valid_second (0xE0 + p) (0x80 + q)"
    using p q low sur by (auto simp: valid_second_def is_continuation_def)
  have "decode_step (0xE0 + p) ((0x80 + q) # (0x80 + r) # rest) = (c, 2)"
    using p q r v c by (simp add: decode_step_def is_continuation_def)
  then show ?thesis by (simp add: a_def p_def q_def r_def div_4096)
qed

lemma decode_four_bytes:
  assumes "0x10000 \<le> c" and "c < 0x110000"
  shows "decode_replace
           ((0xF0 + c div 262144) # (0x80 + (c div 4096) mod 64) #
            (0x80 + (c div 64) mod 64) # (0x80 + c mod 64) # rest) =
         c # decode_replace rest"
proof -
  define a where "a = c div 64"
  define b where "b = a div 64"
  define t p q r where "t = b div 64" and "p = b mod 64" and "q = a mod 64" and "r = c mod 64"
  have "c = 64 * a + r" and "a = 64 * b + q" and "b = 64 * t + p"
    by (simp_all add: a_def b_def t_def p_def q_def r_def)
  then have c: "c = 262144 * t + 4096 * p + 64 * q + r"
    by simp
  have p: "p < 64" and q: "q < 64" and r: "r < 64"
    by (simp_all add: p_def q_def r_def)
  have t: "t < 5"
    using assms(2) c by simp
  have low: "16 \<le> p" if "t = 0"
    using that assms(1) c q r by simp
  have high: "p < 16" if "t = 4"
    using that assms(2) c by simp
  have v: "valid_second (0xF0 + t) (0x80 + p)"
    using t p low high by (auto simp: valid_second_def is_continuation_def)
  have "decode_step (0xF0 + t) ((0x80 + p) # (0x80 + q) # (0x80 + r) # rest) = (c, 3)"
    using t p q r v c by (simp add: decode_step_def is_continuation_def)
  then show ?thesis by (simp add: a_def b_def t_def p_def q_def r_def div_4096 div_262144)
qed


lemma decode_encode_code_point:
  assumes "encode_code_point c = Some bs"
  shows "decode_replace (bs @ rest) = c # decode_replace rest"
proof -
  consider (one) "c < 0x80" "bs = [c]"
    | (two) "0x80 \<le> c" "c < 0x800" "bs = [0xC0 + c div 64, 0x80 + c mod 64]"
    | (three) "0x800 \<le> c" "c < 0x10000" "\<not> is_surrogate c"
        "bs = [0xE0 + c div 4096, 0x80 + (c div 64) mod 64, 0x80 + c mod 64]"
    | (four) "0x10000 \<le> c" "c < 0x110000"
        "bs = [0xF0 + c div 262144, 0x80 + (c div 4096) mod 64, 0x80 + (c div 64) mod 64,
               0x80 + c mod 64]"
    using assms unfolding encode_code_point_def
    by (metis linorder_not_less option.inject option.simps(3))
  then show ?thesis
  proof cases
    case one
    then show ?thesis using decode_one_byte [of c rest] by simp
  next
    case two
    then show ?thesis using decode_two_bytes [of c rest] by simp
  next
    case three
    then show ?thesis using decode_three_bytes [of c rest] by simp
  next
    case four
    then show ?thesis using decode_four_bytes [of c rest] by simp
  qed
qed

lemma decode_encode_code_points:
  "encode_code_points s = Some bs \<Longrightarrow> decode_replace bs = s"
proof (induction s arbitrary: bs)
  case Nil
  then show ?case by simp
next
  case (Cons c cs)
  then obtain b r where b: "encode_code_point c = Some b"
    and r: "encode_code_points cs = Some r" and bs: "bs = b @ r"
    by (auto split: option.splits)
  show ?case
    using Cons.IH [OF r] decode_encode_code_point [OF b, of r] bs by simp
qed

lemma encode_code_point_bytes:
  assumes "encode_code_point c = Some bs"
  shows "list_all (\<lambda>b. b < 256) bs"
proof -
  have "c div 64 < 32" if "c < 0x800"
    using that by simp
  moreover have "c div 4096 < 16" if "c < 0x10000"
    using that by simp
  moreover have "c div 262144 < 5" if "c < 0x110000"
    using that by simp
  moreover have "c mod 64 < 64" "(c div 64) mod 64 < 64" "(c div 4096) mod 64 < 64"
    by simp_all
  ultimately show ?thesis
    using assms unfolding encode_code_point_def
    by (auto split: if_splits)
qed

lemma encode_code_points_bytes:
  "encode_code_points s = Some bs \<Longrightarrow> list_all (\<lambda>b. b < 256) bs"
proof (induction s arbitrary: bs)
  case Nil
  then show ?case by simp
next
  case (Cons c cs)
  then obtain b r where b: "encode_code_point c = Some b"
    and r: "encode_code_points cs = Some r" and bs: "bs = b @ r"
    by (auto split: option.splits)
  show ?case
    using Cons.IH [OF r] encode_code_point_bytes [OF b] bs by simp
qed

lemma unat_byte: "n < 256 \<Longrightarrow> unat (of_nat n :: byte) = n"
  by (simp add: unat_of_nat)

lemma unat_bytes: "list_all (\<lambda>b. b < 256) ns \<Longrightarrow> map unat (map of_nat ns :: byte list) = ns"
  by (induction ns) (simp_all add: unat_byte)

lemma utf8_decode_encode:
  assumes "utf8_encode s = Some bs"
  shows "utf8_decode_replace bs = s"
proof -
  obtain ns where ns: "encode_code_points s = Some ns" and bs: "bs = map of_nat ns"
    using assms by (auto simp: utf8_encode_def)
  have "map unat bs = ns"
    unfolding bs using encode_code_points_bytes [OF ns] by (rule unat_bytes)
  then show ?thesis
    by (simp add: utf8_decode_replace_def decode_encode_code_points [OF ns])
qed


lemma last_write_append:
  "last_write h path (xs @ ys) =
     (case last_write h path ys of Some bs \<Rightarrow> Some bs | None \<Rightarrow> last_write h path xs)"
  by (induction xs) (auto split: option.splits)

lemma write_file_RTrue:
  assumes "write_file rt env self path (PStr content) tr = (RTrue, tr1)" and "sftp self = Some h"
  shows "\<exists>bs. utf8_encode content = Some bs \<and>
              tr1 = tr @ [SFTP_open h path (lit ''w''), File_write h path bs, File_close h path]"
  using assms
  by (auto simp: write_file_def write_body_def write_error_def sftp_attr_def perform_def
      split: option.splits prod.splits)

text \<open>
  Claim C3.  Let \<open>write_file\<close> of a text succeed (it returns \<open>True\<close>), and let the read
  that follows be served without an exception with the bytes of that write.  Then the
  bytes written are the UTF-8 encoding of the text, and \<open>read_file\<close> without a byte cap
  returns the text itself.  Nothing is replaced: a text whose encoding fails (a
  surrogate code point) is not written successfully, so the bytes of a successful write
  are valid UTF-8.
\<close>

theorem write_then_read_round_trip:
  assumes "sftp self = Some h"
    and "write_file rt env self path (PStr content) tr = (RTrue, tr1)"
    and "tr2 = tr1 @ [SFTP_open h path (lit ''rb'')]"
    and "raises env tr1 (SFTP_open h path (lit ''rb'')) = None"
    and "raises env tr2 (File_read h path None) = None"
    and "raises env (tr2 @ [File_read h path None]) (File_close h path) = None"
    and "last_write h path tr1 = Some (file_data env tr2 (File_read h path None))"
  shows "utf8_encode content = last_write h path tr1 \<and>
         read_file rt env self path None tr1 =
           (RStr content, tr2 @ [File_read h path None, File_close h path])"
proof -
  obtain bs where bs: "utf8_encode content = Some bs"
    and tr1: "tr1 = tr @ [SFTP_open h path (lit ''w''), File_write h path bs, File_close h path]"
    using write_file_RTrue [OF assms(2,1)] by blast
  have written: "last_write h path tr1 = Some bs"
    by (simp add: tr1 last_write_append)
  then have "file_data env tr2 (File_read h path None) = bs"
    using assms(7) by simp
  then have "utf8_decode_replace (file_data env tr2 (File_read h path None)) = content"
    using utf8_decode_encode [OF bs] by simp
  then have "read_file rt env self path None tr1 =
           (RStr content, tr2 @ [File_read h path None, File_close h path])"
    using assms(1,3,4,5,6) by (simp add: read_file_def sftp_attr_def perform_def)
  with bs written show ?thesis
    by simp
qed

theorem write_then_read_round_trip_witness:
  "sftp connected_client = Some 2 \<and>
   write_file example_runtime remembering connected_client (PStr (lit ''/tmp/a.txt''))
     (PStr [104, 233, 8364, 128512]) [] =
     (RTrue,
      [SFTP_open 2 (PStr (lit ''/tmp/a.txt'')) (lit ''w''),
       File_write 2 (PStr (lit ''/tmp/a.txt''))
         [0x68, 0xC3, 0xA9, 0xE2, 0x82, 0xAC, 0xF0, 0x9F, 0x98, 0x80],
       File_close 2 (PStr (lit ''/tmp/a.txt''))]) \<and>
   fst (read_file example_runtime remembering connected_client (PStr (lit ''/tmp/a.txt'')) None
     [SFTP_open 2 (PStr (lit ''/tmp/a.txt'')) (lit ''w''),
      File_write 2 (PStr (lit ''/tmp/a.txt''))
        [0x68, 0xC3, 0xA9, 0xE2, 0x82, 0xAC, 0xF0, 0x9F, 0x98, 0x80],
      File_close 2 (PStr (lit ''/tmp/a.txt''))]) =
     RStr [104, 233, 8364, 128512]"
proof -
  let ?p = "PStr (lit ''/tmp/a.txt'')"
  let ?bs = "[0x68, 0xC3, 0xA9, 0xE2, 0x82, 0xAC, 0xF0, 0x9F, 0x98, 0x80] :: byte list"
  let ?tr1 = "[SFTP_open 2 ?p (lit ''w''), File_write 2 ?p ?bs, File_close 2 ?p]"
  have h1: "sftp connected_client = Some 2"
    by (simp add: connected_client_def)
  have enc: "utf8_encode [104, 233, 8364, 128512] = Some ?bs"
    by (simp add: utf8_encode_def encode_code_point_def is_surrogate_def)
  have h2: "write_file example_runtime remembering connected_client ?p
              (PStr [104, 233, 8364, 128512]) [] = (RTrue, ?tr1)"
    by (simp add: write_file_def write_body_def sftp_attr_def h1 perform_def enc
        remembering_def quiet_def)
  have h4: "raises remembering tr c = None" for tr c
    by (simp add: remembering_def quiet_def)
  have h7: "last_write 2 ?p ?tr1 =
              Some (file_data remembering (?tr1 @ [SFTP_open 2 ?p (lit ''rb'')])
                      (File_read 2 ?p None))"
    by (simp add: remembering_def quiet_def last_write_append)
  from write_then_read_round_trip [OF h1 h2 refl h4 h4 h4 h7]
  have "fst (read_file example_runtime remembering connected_client ?p None ?tr1) =
          RStr [104, 233, 8364, 128512]"
    by simp
  with h1 h2 show ?thesis
    by simp
qed


end
